theory Spec2Isabelle
  imports Main
begin

section \<open>SimpleMediaDownloader: the batch download orchestrator\<close>

text \<open>
  A shallow embedding of \<^verbatim>\<open>SimpleMediaDownloader.py\<close>. The two module globals
  \<^verbatim>\<open>FAILED_DOWNLOADS\<close> and \<^verbatim>\<open>MAX_WORKERS\<close> are the fields of a state record that every
  operation takes and returns. What the program gets from outside (yt-dlp, the standard
  library's URL parser, the answers typed at a prompt) is a field of an environment record
  and is never given a definition: every theorem holds for all environments.

  Strings are \<open>string\<close>, and a character stands for the code point of its number: the
  model covers the text whose code points are below 256. On that range the Python
  predicates \<^verbatim>\<open>str.isdigit\<close>, \<^verbatim>\<open>str.strip\<close>, \<^verbatim>\<open>str.lower\<close> and the regular expression class
  \<^verbatim>\<open>\w\<close> are modelled as Python 3 defines them for \<^verbatim>\<open>str\<close>.
\<close>

subsection \<open>Python string operations used by the source\<close>

text \<open>\<^verbatim>\<open>sub in s\<close>: \<open>sub\<close> occurs in \<open>s\<close> as a contiguous run of characters.\<close>

fun starts_with :: "string \<Rightarrow> string \<Rightarrow> bool" where
  "starts_with [] s = True"
| "starts_with (p # ps) [] = False"
| "starts_with (p # ps) (c # cs) = (p = c \<and> starts_with ps cs)"

fun str_in :: "string \<Rightarrow> string \<Rightarrow> bool" where
  "str_in sub [] = (sub = [])"
| "str_in sub (c # cs) = (starts_with sub (c # cs) \<or> str_in sub cs)"

text \<open>\<^verbatim>\<open>str(e).split('\n')[0]\<close>: everything before the first line feed.\<close>

definition first_line :: "string \<Rightarrow> string" where
  "first_line msg = takeWhile (\<lambda>c. c \<noteq> CHR 0x0A) msg"

text \<open>
  \<^verbatim>\<open>os.path.join(a, b)\<close> for two components, as \<^verbatim>\<open>posixpath\<close> computes it: an absolute
  second component replaces the first, otherwise the components are joined by one slash.
\<close>

definition path_join :: "string \<Rightarrow> string \<Rightarrow> string" where
  "path_join a b =
     (if starts_with ''/'' b then b
      else if a = [] \<or> last a = CHR ''/'' then a @ b
      else a @ ''/'' @ b)"

text \<open>
  \<^verbatim>\<open>str.strip()\<close> removes leading and trailing whitespace. Below code point 256 the
  whitespace characters are tab, line feed, vertical tab, form feed, carriage return, the
  four separators \<open>0x1C\<close> to \<open>0x1F\<close>, space, next line (\<open>0x85\<close>) and no-break space (\<open>0xA0\<close>).
\<close>

definition is_space :: "char \<Rightarrow> bool" where
  "is_space c =
     (let n = (of_char c :: nat)
      in (9 \<le> n \<and> n \<le> 13) \<or> (28 \<le> n \<and> n \<le> 32) \<or> n = 133 \<or> n = 160)"

definition str_strip :: "string \<Rightarrow> string" where
  "str_strip s = rev (dropWhile is_space (rev (dropWhile is_space s)))"

text \<open>
  \<^verbatim>\<open>str.lower()\<close>. Below code point 256 it changes the letters \<open>A\<close> to \<open>Z\<close> and the
  letters \<open>0xC0\<close> to \<open>0xDE\<close> other than the multiplication sign \<open>0xD7\<close>, each to the
  character 32 places on.
\<close>

definition lower_char :: "char \<Rightarrow> char" where
  "lower_char c =
     (let n = (of_char c :: nat)
      in if 192 \<le> n \<and> n \<le> 222 \<and> n \<noteq> 215 then char_of (n + 32)
         else (case map_of (zip ''ABCDEFGHIJKLMNOPQRSTUVWXYZ'' ''abcdefghijklmnopqrstuvwxyz'') c of
                 Some l \<Rightarrow> l
               | None \<Rightarrow> c))"

definition str_lower :: "string \<Rightarrow> string" where
  "str_lower s = map lower_char s"

text \<open>
  The characters that \<^verbatim>\<open>str.isdigit()\<close> accepts below code point 256: the ten decimal
  digits and the superscripts two, three and one (\<open>0xB2\<close>, \<open>0xB3\<close>, \<open>0xB9\<close>). Only the
  decimal digits are digits for \<^verbatim>\<open>int()\<close>.
\<close>

definition is_decimal :: "char \<Rightarrow> bool" where
  "is_decimal c = (let n = (of_char c :: nat) in 48 \<le> n \<and> n \<le> 57)"

definition is_digit :: "char \<Rightarrow> bool" where
  "is_digit c = (let n = (of_char c :: nat) in (48 \<le> n \<and> n \<le> 57) \<or> n = 178 \<or> n = 179 \<or> n = 185)"

text \<open>\<^verbatim>\<open>str.isdigit()\<close>: at least one character, and every character a digit.\<close>

definition str_isdigit :: "string \<Rightarrow> bool" where
  "str_isdigit s = (s \<noteq> [] \<and> list_all is_digit s)"

text \<open>The integer that a string of decimal digits denotes; Python's integers are unbounded.\<close>

definition digit_value :: "string \<Rightarrow> int" where
  "digit_value s = foldl (\<lambda>n c. 10 * n + (int (of_char c) - 48)) 0 s"

text \<open>\<^verbatim>\<open>s.split(sep)\<close> for a separator of one character: the pieces between separators.\<close>

fun str_split :: "char \<Rightarrow> string \<Rightarrow> string list" where
  "str_split sep [] = [[]]"
| "str_split sep (c # cs) =
     (if c = sep then [] # str_split sep cs
      else (case str_split sep cs of
              w # ws \<Rightarrow> (c # w) # ws
            | [] \<Rightarrow> [[c]]))"

subsection \<open>yt-dlp options\<close>

datatype hook = progress_hook

datatype postprocessor =
    FFmpegVideoConvertor string
  | FFmpegExtractAudio string string
  | FFmpegMetadata

text \<open>
  The options dictionary. The keys that \<^verbatim>\<open>base_ydl_opts\<close> sets are always present; the
  keys added later (\<^verbatim>\<open>noplaylist\<close>, \<^verbatim>\<open>format\<close>, \<^verbatim>\<open>postprocessors\<close>) are optional, \<open>None\<close>
  being a dictionary without the key.
\<close>

record ydl_opts =
  retries :: nat
  fragment_retries :: nat
  continuedl :: bool
  nooverwrites :: bool
  progress_hooks :: "hook list"
  outtmpl :: string
  writethumbnail :: bool
  quiet :: bool
  verbose :: bool
  noplaylist :: "bool option"
  format :: "string option"
  postprocessors :: "postprocessor list option"

definition base_ydl_opts :: "string \<Rightarrow> ydl_opts" where
  "base_ydl_opts output_dir =
     \<lparr> retries = 5,
       fragment_retries = 10,
       continuedl = True,
       nooverwrites = True,
       progress_hooks = [progress_hook],
       outtmpl = path_join output_dir ''%(title)s [%(id)s].%(ext)s'',
       writethumbnail = False,
       quiet = False,
       verbose = False,
       noplaylist = None,
       format = None,
       postprocessors = None \<rparr>"

subsection \<open>State, environment and errors\<close>

text \<open>A failure record is the tuple \<^verbatim>\<open>(url, desc, error)\<close> of the source.\<close>

type_synonym failure = "string \<times> string \<times> string"

definition f_url :: "failure \<Rightarrow> string" where "f_url r = fst r"
definition f_desc :: "failure \<Rightarrow> string" where "f_desc r = fst (snd r)"
definition f_error :: "failure \<Rightarrow> string" where "f_error r = snd (snd r)"

text \<open>
  What one call of \<^verbatim>\<open>ydl.download([url])\<close> does: it returns, or it raises an exception
  \<open>e\<close> whose \<^verbatim>\<open>str(e)\<close> is the given text.
\<close>

datatype fetch_result = Completed | Raised string

text \<open>
  The state: the two globals, and two counters that only number the calls made to the
  outside so far, so that the environment can answer every call differently.
\<close>

record state =
  FAILED_DOWNLOADS :: "failure list"
  MAX_WORKERS :: int
  fetches :: nat
  prompts :: nat

text \<open>
  What \<^verbatim>\<open>urlparse\<close> returns: the attributes \<^verbatim>\<open>netloc\<close> and \<^verbatim>\<open>query\<close>, which the source
  reads, and the attribute \<^verbatim>\<open>hostname\<close>, which it does not read: the host proper, without
  user information and port, or nothing.
\<close>

record parsed_url =
  netloc :: string
  query :: string
  hostname :: "string option"

text \<open>
  What \<^verbatim>\<open>extract_info\<close> returns, as far as the source reads it: the key \<^verbatim>\<open>title\<close> and
  the key \<^verbatim>\<open>entries\<close>, each present or not; an entry is a dictionary of which only the
  key \<^verbatim>\<open>url\<close> is read, present or not.
\<close>

type_synonym entry = "string option"

record info =
  title :: "string option"
  entries :: "entry list option"

text \<open>
  The exceptions of the model, each with the text of its message where it has one:
  \<^verbatim>\<open>ValueError\<close> (raised by \<^verbatim>\<open>int()\<close> and by \<^verbatim>\<open>ThreadPoolExecutor\<close>), \<^verbatim>\<open>EOFError\<close> (raised by
  \<^verbatim>\<open>input()\<close> at the end of the input) and \<^verbatim>\<open>OSError\<close> (raised by \<^verbatim>\<open>os.makedirs\<close>).
\<close>

datatype error = ValueError string | EOFError | OSError string

definition error_text :: "error \<Rightarrow> string" where
  "error_text err =
     (case err of
        ValueError msg \<Rightarrow> msg
      | EOFError \<Rightarrow> ''EOF when reading a line''
      | OSError msg \<Rightarrow> msg)"

text \<open>
  The environment.
  \<^item> \<open>fetch n opts url\<close> is the outcome of the download that was submitted as number
    \<open>n\<close> of the session; jobs are numbered when they are submitted, so the numbering
    does not depend on the order in which concurrent downloads finish.
  \<^item> \<open>dir_input n\<close> is what \<^verbatim>\<open>input()\<close> gives at the \<open>n\<close>-th directory prompt of the
    session: the typed line, or \<open>None\<close> where it raises \<^verbatim>\<open>EOFError\<close>.
  \<^item> \<open>home\<close> is \<^verbatim>\<open>os.path.expanduser("~")\<close>; \<open>isdir path\<close> says that \<open>path\<close> exists
    and is a directory.
  \<^item> \<open>makedirs path\<close> is \<^verbatim>\<open>os.makedirs(path, exist_ok=True)\<close>: \<open>None\<close> where it
    returns, \<open>Some msg\<close> where it raises an exception with text \<open>msg\<close>.
  \<^item> \<open>urlparse\<close> and \<open>parse_qs\<close> are the functions of \<^verbatim>\<open>urllib.parse\<close>; \<open>urlparse\<close>
    gives \<open>None\<close> where it raises, \<open>parse_qs\<close> gives the dictionary from parameter
    names to their values.
  \<^item> \<open>extract_info\<close> is the playlist lookup of yt-dlp: \<open>Inl msg\<close> where it raises an
    exception with text \<open>msg\<close>.
  \<^item> \<open>sanitize_filename\<close> is the function of \<^verbatim>\<open>yt_dlp.utils\<close>.
  \<^item> \<open>max_str_digits\<close> is the interpreter's limit on the number of digits that \<^verbatim>\<open>int()\<close>
    converts (\<^verbatim>\<open>sys.get_int_max_str_digits()\<close>; 4300 unless configured, 0 for no limit,
    as in interpreters that have none); \<open>int_error_text s\<close> is the message of the
    \<^verbatim>\<open>ValueError\<close> that \<^verbatim>\<open>int(s)\<close> raises.
\<close>

record env =
  fetch :: "nat \<Rightarrow> ydl_opts \<Rightarrow> string \<Rightarrow> fetch_result"
  dir_input :: "nat \<Rightarrow> string option"
  home :: string
  isdir :: "string \<Rightarrow> bool"
  makedirs :: "string \<Rightarrow> string option"
  urlparse :: "string \<Rightarrow> parsed_url option"
  parse_qs :: "string \<Rightarrow> (string \<rightharpoonup> string list)"
  extract_info :: "string \<Rightarrow> string + info"
  sanitize_filename :: "string \<Rightarrow> string"
  max_str_digits :: nat
  int_error_text :: "string \<Rightarrow> string"

definition initial_state :: state where
  "initial_state = \<lparr> FAILED_DOWNLOADS = [], MAX_WORKERS = 5, fetches = 0, prompts = 0 \<rparr>"

subsection \<open>Reading integers\<close>

text \<open>
  \<^verbatim>\<open>int(s)\<close> for a string that \<^verbatim>\<open>isdigit()\<close> has accepted, which is where the source calls
  it. It returns the integer when every character is a decimal digit and the string is
  not longer than the interpreter's limit (which applies above 640 digits and counts
  leading zeros); otherwise it raises \<^verbatim>\<open>ValueError\<close>.
\<close>

definition py_int :: "env \<Rightarrow> string \<Rightarrow> error + int" where
  "py_int e s =
     (if s \<noteq> [] \<and> list_all is_decimal s
         \<and> \<not> (0 < max_str_digits e \<and> max_str_digits e < length s \<and> 640 < length s)
      then Inr (digit_value s)
      else Inl (ValueError (int_error_text e s)))"

subsection \<open>The output directory\<close>

text \<open>\<^verbatim>\<open>get_default_downloads_dir\<close>.\<close>

definition get_default_downloads_dir :: "env \<Rightarrow> string" where
  "get_default_downloads_dir e =
     (let downloads = path_join (home e) ''Downloads''
      in if isdir e downloads then downloads else ''./downloads'')"

text \<open>
  \<^verbatim>\<open>get_output_dir\<close>, called as the \<open>n\<close>-th directory prompt. The \<^verbatim>\<open>input()\<close> is outside
  the \<^verbatim>\<open>try\<close>, so its \<^verbatim>\<open>EOFError\<close> leaves the function; the first \<^verbatim>\<open>os.makedirs\<close> is
  inside, and its handler calls \<^verbatim>\<open>os.makedirs\<close> on the fallback directory unguarded.
\<close>

definition get_output_dir :: "env \<Rightarrow> nat \<Rightarrow> error + string" where
  "get_output_dir e n =
     (let default_dir = get_default_downloads_dir e
      in case dir_input e n of
           None \<Rightarrow> Inl EOFError
         | Some line \<Rightarrow>
             (let custom = str_strip line;
                  save_dir = (if custom \<noteq> [] then custom else default_dir)
              in case makedirs e save_dir of
                   None \<Rightarrow> Inr save_dir
                 | Some msg \<Rightarrow>
                     (case makedirs e ''./downloads'' of
                        None \<Rightarrow> Inr ''./downloads''
                      | Some msg' \<Rightarrow> Inl (OSError msg'))))"

subsection \<open>URL checks and URL input\<close>

text \<open>
  \<^verbatim>\<open>is_valid_url\<close>: \<^verbatim>\<open>re.match\<close> of \<^verbatim>\<open>^https?://(?:[-\w.]|(?:%[\da-fA-F]{2}))+\<close>. The
  match is anchored at the start only, so the URL is valid when it starts with the
  scheme and one unit of the repeated group follows: a word character, a hyphen, a dot,
  or a percent sign with two hexadecimal digits. A word character is a letter, a digit or
  another numeric character of Unicode, or the underscore; \<^verbatim>\<open>\d\<close> is a decimal digit, of
  which there are only the ten ASCII ones below code point 256.
\<close>

definition is_word :: "char \<Rightarrow> bool" where
  "is_word c =
     (let n = (of_char c :: nat)
      in (48 \<le> n \<and> n \<le> 57) \<or> (65 \<le> n \<and> n \<le> 90) \<or> (97 \<le> n \<and> n \<le> 122) \<or> n = 95
         \<or> n = 170 \<or> n = 178 \<or> n = 179 \<or> n = 181 \<or> n = 185 \<or> n = 186
         \<or> (188 \<le> n \<and> n \<le> 190) \<or> (192 \<le> n \<and> n \<le> 214) \<or> (216 \<le> n \<and> n \<le> 246)
         \<or> (248 \<le> n \<and> n \<le> 255))"

definition is_hex :: "char \<Rightarrow> bool" where
  "is_hex c =
     (let n = (of_char c :: nat)
      in (48 \<le> n \<and> n \<le> 57) \<or> (65 \<le> n \<and> n \<le> 70) \<or> (97 \<le> n \<and> n \<le> 102))"

fun host_unit :: "string \<Rightarrow> bool" where
  "host_unit [] = False"
| "host_unit (c # cs) =
     (if is_word c \<or> c = CHR ''-'' \<or> c = CHR ''.'' then True
      else (case c # cs of
              p # a # b # _ \<Rightarrow> p = CHR ''%'' \<and> is_hex a \<and> is_hex b
            | _ \<Rightarrow> False))"

definition is_valid_url :: "string \<Rightarrow> bool" where
  "is_valid_url url =
     (if starts_with ''https://'' url then host_unit (drop 8 url)
      else if starts_with ''http://'' url then host_unit (drop 7 url)
      else False)"

text \<open>
  \<^verbatim>\<open>is_pure_playlist_url\<close>. The bare \<^verbatim>\<open>except\<close> turns an exception of \<^verbatim>\<open>urlparse\<close> into
  the answer \<^verbatim>\<open>False\<close>.
\<close>

definition is_pure_playlist_url :: "env \<Rightarrow> string \<Rightarrow> bool" where
  "is_pure_playlist_url e url =
     (case urlparse e url of
        None \<Rightarrow> False
      | Some parsed \<Rightarrow>
          (let domain = str_lower (netloc parsed)
           in if str_in ''youtube.com'' domain \<or> str_in ''youtu.be'' domain then
                (let qs = parse_qs e (query parsed)
                 in qs ''list'' \<noteq> None \<and> qs ''v'' = None)
              else False))"

text \<open>
  \<^verbatim>\<open>get_urls\<close>. The lines typed at the prompt are a list; \<^verbatim>\<open>input()\<close> takes the next
  one, and raises \<^verbatim>\<open>EOFError\<close> when none is left, which ends the loop as an empty line
  does. The parameter \<^verbatim>\<open>multiple\<close> is not read by the source.
\<close>

fun get_urls_loop :: "env \<Rightarrow> bool \<Rightarrow> string list \<Rightarrow> string list \<Rightarrow> string list" where
  "get_urls_loop e expect_playlist [] urls = urls"
| "get_urls_loop e expect_playlist (line # rest) urls =
     (let url = str_strip line
      in if url = [] then urls
         else if \<not> is_valid_url url then get_urls_loop e expect_playlist rest urls
         else if \<not> expect_playlist \<and> is_pure_playlist_url e url
           then get_urls_loop e expect_playlist rest urls
         else get_urls_loop e expect_playlist rest (urls @ [url]))"

definition get_urls :: "env \<Rightarrow> bool \<Rightarrow> bool \<Rightarrow> string list \<Rightarrow> string list" where
  "get_urls e multiple expect_playlist lines = get_urls_loop e expect_playlist lines []"

subsection \<open>Thread settings\<close>

text \<open>
  \<^verbatim>\<open>download_thread_settings\<close>. The argument is what \<^verbatim>\<open>input()\<close> gives: a line, or
  \<open>None\<close> for \<^verbatim>\<open>EOFError\<close>, which the function catches. A \<^verbatim>\<open>ValueError\<close> of \<^verbatim>\<open>int()\<close> is not
  caught and leaves the function. The closing \<^verbatim>\<open>quit_prompt()\<close> reads no global and
  writes none; it is left out here and in the operations below.
\<close>

definition download_thread_settings :: "env \<Rightarrow> string option \<Rightarrow> state \<Rightarrow> error option \<times> state" where
  "download_thread_settings e inp s =
     (case inp of
        None \<Rightarrow> (None, s)
      | Some line \<Rightarrow>
          (let new_value = str_strip line
           in if \<not> str_isdigit new_value then (None, s)
              else (case py_int e new_value of
                      Inl err \<Rightarrow> (Some err, s)
                    | Inr num \<Rightarrow>
                        if num \<ge> 1 then (None, s\<lparr> MAX_WORKERS := num \<rparr>) else (None, s))))"

subsection \<open>Shared download functions\<close>

text \<open>
  \<^verbatim>\<open>download_single\<close>: \<open>None\<close> when the download completed, the failure tuple when
  anything was raised inside the \<^verbatim>\<open>try\<close>.
\<close>

definition download_single :: "env \<Rightarrow> nat \<Rightarrow> ydl_opts \<Rightarrow> string \<Rightarrow> string \<Rightarrow> failure option" where
  "download_single e n opts url desc =
     (case fetch e n opts url of
        Completed \<Rightarrow> None
      | Raised msg \<Rightarrow> Some (url, desc, first_line msg))"

text \<open>
  The list \<^verbatim>\<open>futures\<close>: job \<open>i\<close> of the batch is submitted as number \<open>k + i\<close>, and its
  future holds what \<^verbatim>\<open>download_single\<close> returned for it.
\<close>

definition submit_all :: "env \<Rightarrow> nat \<Rightarrow> ydl_opts \<Rightarrow> string list \<Rightarrow> string \<Rightarrow> failure option list" where
  "submit_all e k opts urls desc =
     map (\<lambda>i. download_single e (k + i) opts (urls ! i) desc) [0..<length urls]"

text \<open>
  The loop \<^verbatim>\<open>for i, future in enumerate(futures)\<close>, run after \<^verbatim>\<open>wait(futures)\<close>: it walks
  the futures in submission order and appends to \<^verbatim>\<open>succeeded\<close> or to \<^verbatim>\<open>failed\<close>. Its
  \<^verbatim>\<open>except\<close> branch needs a future that raises; \<^verbatim>\<open>download_single\<close> catches every
  exception of the download, so no future of the model does.
\<close>

fun collect :: "(string \<times> failure option) list \<Rightarrow> string list \<Rightarrow> failure list
    \<Rightarrow> string list \<times> failure list" where
  "collect [] succeeded failed = (succeeded, failed)"
| "collect ((url, result) # rest) succeeded failed =
     (case result of
        Some r \<Rightarrow> collect rest succeeded (failed @ [r])
      | None \<Rightarrow> collect rest (succeeded @ [url]) failed)"

text \<open>
  \<^verbatim>\<open>run_download\<close>. \<^verbatim>\<open>ThreadPoolExecutor(max_workers=n)\<close> raises \<^verbatim>\<open>ValueError\<close> when
  \<open>n \<le> 0\<close>, before any download is submitted; this is the only exception that leaves
  the function in the model.

  The outcome of a batch: the local lists \<^verbatim>\<open>succeeded\<close> and \<^verbatim>\<open>failed\<close> when
  \<^verbatim>\<open>run_download\<close> returns. On an empty \<^verbatim>\<open>urls\<close> the source returns before it creates
  them; the model gives two empty lists.
\<close>

record outcome =
  succeeded :: "string list"
  failed :: "failure list"

definition run_download :: "env \<Rightarrow> ydl_opts \<Rightarrow> string list \<Rightarrow> string \<Rightarrow> state
    \<Rightarrow> error + (outcome \<times> state)" where
  "run_download e opts urls desc s =
     (if urls = [] then Inr (\<lparr> succeeded = [], failed = [] \<rparr>, s)
      else if length urls = 1 then
        (let url = urls ! 0;
             result = download_single e (fetches s) opts url desc;
             (ok, bad) = (case result of Some r \<Rightarrow> ([], [r]) | None \<Rightarrow> ([url], []));
             s1 = s\<lparr> fetches := fetches s + 1 \<rparr>;
             s2 = (if bad \<noteq> [] then s1\<lparr> FAILED_DOWNLOADS := FAILED_DOWNLOADS s1 @ bad \<rparr> else s1)
         in Inr (\<lparr> succeeded = ok, failed = bad \<rparr>, s2))
      else if MAX_WORKERS s \<le> 0 then Inl (ValueError ''max_workers must be greater than 0'')
      else
        (let concurrent_ydl_opts = opts\<lparr> progress_hooks := [], quiet := True \<rparr>;
             futures = submit_all e (fetches s) concurrent_ydl_opts urls desc;
             (ok, bad) = collect (zip urls futures) [] [];
             s1 = s\<lparr> fetches := fetches s + length urls \<rparr>;
             s2 = (if bad \<noteq> [] then s1\<lparr> FAILED_DOWNLOADS := FAILED_DOWNLOADS s1 @ bad \<rparr> else s1)
         in Inr (\<lparr> succeeded = ok, failed = bad \<rparr>, s2)))"

definition run_download_with_log :: "env \<Rightarrow> ydl_opts \<Rightarrow> string list \<Rightarrow> string \<Rightarrow> state
    \<Rightarrow> error + (outcome \<times> state)" where
  "run_download_with_log e opts urls desc s = run_download e opts urls desc s"

subsection \<open>Single and multiple downloads\<close>

text \<open>
  A batch is one call of \<^verbatim>\<open>run_download\<close>: its arguments, the failure registry and the
  number of downloads submitted so far at the moment of the call, and its outcome. The
  operations below return the batches they issued, in the order of the calls.
\<close>

record batch =
  b_opts :: ydl_opts
  b_urls :: "string list"
  b_desc :: string
  b_registry :: "failure list"
  b_first :: nat
  b_outcome :: outcome

definition issue :: "env \<Rightarrow> ydl_opts \<Rightarrow> string list \<Rightarrow> string \<Rightarrow> state \<Rightarrow> error + (batch \<times> state)" where
  "issue e opts urls desc s =
     (case run_download e opts urls desc s of
        Inl err \<Rightarrow> Inl err
      | Inr (out, s') \<Rightarrow>
          Inr (\<lparr> b_opts = opts, b_urls = urls, b_desc = desc,
                 b_registry = FAILED_DOWNLOADS s, b_first = fetches s, b_outcome = out \<rparr>, s'))"

text \<open>The three dictionaries that \<^verbatim>\<open>ydl_opts.update\<close> is given in the source.\<close>

definition video_with_audio_update :: "ydl_opts \<Rightarrow> ydl_opts" where
  "video_with_audio_update opts =
     opts\<lparr> format := Some ''bestvideo+bestaudio'',
           postprocessors := Some [FFmpegVideoConvertor ''mp4'', FFmpegMetadata] \<rparr>"

definition audio_update :: "ydl_opts \<Rightarrow> ydl_opts" where
  "audio_update opts =
     opts\<lparr> format := Some ''bestaudio/best'',
           postprocessors := Some [FFmpegExtractAudio ''mp3'' ''0'', FFmpegMetadata] \<rparr>"

definition video_only_update :: "ydl_opts \<Rightarrow> ydl_opts" where
  "video_only_update opts =
     opts\<lparr> format := Some ''bestvideo'',
           postprocessors := Some [FFmpegVideoConvertor ''mp4'', FFmpegMetadata] \<rparr>"

text \<open>
  The menu operations return three things: the exception that left the operation, if
  one did; what the operation did until then (the batches it issued); and the state of
  the globals at that moment, with which the session goes on, since the menu loop
  catches the exception.

  The body shared by \<^verbatim>\<open>download_video_with_audio\<close>, \<^verbatim>\<open>download_audio_single\<close> and
  \<^verbatim>\<open>download_video_only_single\<close>, which differ in the update and in the label: read the
  URLs, stop if there is none, ask for the directory, run one batch.
\<close>

definition download_mode :: "(ydl_opts \<Rightarrow> ydl_opts) \<Rightarrow> string \<Rightarrow> env \<Rightarrow> string list \<Rightarrow> state
    \<Rightarrow> error option \<times> batch list \<times> state" where
  "download_mode update desc e lines s =
     (let urls = get_urls e True False lines
      in if urls = [] then (None, [], s)
         else
           (let s0 = s\<lparr> prompts := prompts s + 1 \<rparr>
            in case get_output_dir e (prompts s) of
                 Inl err \<Rightarrow> (Some err, [], s0)
               | Inr output_dir \<Rightarrow>
                   (let opts = update ((base_ydl_opts output_dir)\<lparr> noplaylist := Some True \<rparr>)
                    in case issue e opts urls desc s0 of
                         Inl err \<Rightarrow> (Some err, [], s0)
                       | Inr (b, s') \<Rightarrow> (None, [b], s'))))"

definition download_video_with_audio :: "env \<Rightarrow> string list \<Rightarrow> state
    \<Rightarrow> error option \<times> batch list \<times> state" where
  "download_video_with_audio = download_mode video_with_audio_update ''Video with Audio''"

definition download_audio_single :: "env \<Rightarrow> string list \<Rightarrow> state
    \<Rightarrow> error option \<times> batch list \<times> state" where
  "download_audio_single = download_mode audio_update ''Audio''"

definition download_video_only_single :: "env \<Rightarrow> string list \<Rightarrow> state
    \<Rightarrow> error option \<times> batch list \<times> state" where
  "download_video_only_single = download_mode video_only_update ''Video without Audio''"

subsection \<open>Playlist mode\<close>

text \<open>
  What the loop over the playlist URLs does with one of them: it skips it as not a
  playlist, it runs a batch over its entries, or an exception raised on the way is caught
  and printed.
\<close>

datatype pl_event =
    NotAPlaylist string
  | Ran batch
  | ErrorProcessing string string

text \<open>
  The body of \<^verbatim>\<open>for pl_url in urls\<close>, shared by the three playlist functions, which
  differ in the update and in the label. Everything is inside the \<^verbatim>\<open>try\<close>, whose
  \<^verbatim>\<open>except Exception\<close> also catches what \<^verbatim>\<open>run_download\<close> raises.
\<close>

definition process_playlist :: "(ydl_opts \<Rightarrow> ydl_opts) \<Rightarrow> string \<Rightarrow> env \<Rightarrow> string \<Rightarrow> string \<Rightarrow> state
    \<Rightarrow> pl_event \<times> state" where
  "process_playlist update desc e output_dir pl_url s =
     (case extract_info e pl_url of
        Inl msg \<Rightarrow> (ErrorProcessing pl_url msg, s)
      | Inr pl_info \<Rightarrow>
          (case entries pl_info of
             None \<Rightarrow> (NotAPlaylist pl_url, s)
           | Some ents \<Rightarrow>
               (let playlist_title = (case title pl_info of Some t \<Rightarrow> t | None \<Rightarrow> ''Unknown_Playlist'');
                    playlist_dir = path_join output_dir (sanitize_filename e playlist_title)
                in case makedirs e playlist_dir of
                     Some msg \<Rightarrow> (ErrorProcessing pl_url msg, s)
                   | None \<Rightarrow>
                       (let video_urls = List.map_filter (\<lambda>entry. entry) ents;
                            opts = update ((base_ydl_opts output_dir)
                                     \<lparr> outtmpl := path_join playlist_dir ''%(title)s [%(id)s].%(ext)s'',
                                       noplaylist := Some True \<rparr>)
                        in case issue e opts video_urls desc s of
                             Inl err \<Rightarrow> (ErrorProcessing pl_url (error_text err), s)
                           | Inr (b, s') \<Rightarrow> (Ran b, s')))))"

fun process_playlists :: "(ydl_opts \<Rightarrow> ydl_opts) \<Rightarrow> string \<Rightarrow> env \<Rightarrow> string \<Rightarrow> string list \<Rightarrow> state
    \<Rightarrow> pl_event list \<times> state" where
  "process_playlists update desc e output_dir [] s = ([], s)"
| "process_playlists update desc e output_dir (pl_url # rest) s =
     (let (ev, s1) = process_playlist update desc e output_dir pl_url s;
          (evs, s2) = process_playlists update desc e output_dir rest s1
      in (ev # evs, s2))"

text \<open>
  The three playlist functions: read the URLs, stop if there is none, ask for the
  directory (outside the \<^verbatim>\<open>try\<close> of the loop), run the loop.
\<close>

definition playlist_mode :: "(ydl_opts \<Rightarrow> ydl_opts) \<Rightarrow> string \<Rightarrow> env \<Rightarrow> string list \<Rightarrow> state
    \<Rightarrow> error option \<times> pl_event list \<times> state" where
  "playlist_mode update desc e lines s =
     (let urls = get_urls e True True lines
      in if urls = [] then (None, [], s)
         else
           (let s0 = s\<lparr> prompts := prompts s + 1 \<rparr>
            in case get_output_dir e (prompts s) of
                 Inl err \<Rightarrow> (Some err, [], s0)
               | Inr output_dir \<Rightarrow>
                   (let (evs, s') = process_playlists update desc e output_dir urls s0
                    in (None, evs, s'))))"

definition download_video_with_audio_playlist :: "env \<Rightarrow> string list \<Rightarrow> state
    \<Rightarrow> error option \<times> pl_event list \<times> state" where
  "download_video_with_audio_playlist = playlist_mode video_with_audio_update ''Playlist Video with Audio''"

definition download_audio_playlist :: "env \<Rightarrow> string list \<Rightarrow> state
    \<Rightarrow> error option \<times> pl_event list \<times> state" where
  "download_audio_playlist = playlist_mode audio_update ''Playlist Audio''"

definition download_video_only_playlist :: "env \<Rightarrow> string list \<Rightarrow> state
    \<Rightarrow> error option \<times> pl_event list \<times> state" where
  "download_video_only_playlist = playlist_mode video_only_update ''Playlist Video without Audio''"

text \<open>The failure records that one step of the playlist loop added to the registry.\<close>

definition event_failures :: "pl_event \<Rightarrow> failure list" where
  "event_failures ev = (case ev of Ran b \<Rightarrow> failed (b_outcome b) | _ \<Rightarrow> [])"

subsection \<open>Resume failed downloads\<close>

text \<open>
  \<^verbatim>\<open>_retry_downloads\<close>: ask for the directory, build the options from the label, run
  one batch. The three tests on the label are an \<^verbatim>\<open>if\<close>/\<^verbatim>\<open>elif\<close>/\<^verbatim>\<open>elif\<close> chain, taken
  in the order of the source; a label that passes none of them leaves the options
  without a format. An exception of the directory prompt or of \<^verbatim>\<open>run_download\<close> leaves
  the function, with the state as it is then.
\<close>

definition retry_downloads :: "env \<Rightarrow> string list \<Rightarrow> string \<Rightarrow> state
    \<Rightarrow> (error \<times> state) + (batch \<times> state)" where
  "retry_downloads e urls mode s =
     (let s0 = s\<lparr> prompts := prompts s + 1 \<rparr>
      in case get_output_dir e (prompts s) of
           Inl err \<Rightarrow> Inl (err, s0)
         | Inr output_dir \<Rightarrow>
             (let ydl_opts = base_ydl_opts output_dir;
                  is_playlist = str_in ''Playlist'' mode;
                  ydl_opts1 =
                    (if is_playlist then
                       (let playlist_dir = path_join output_dir ''%(playlist_title)s''
                        in ydl_opts\<lparr> outtmpl := path_join playlist_dir ''%(title)s [%(id)s].%(ext)s'',
                                       noplaylist := Some False \<rparr>)
                     else ydl_opts\<lparr> noplaylist := Some True \<rparr>);
                  ydl_opts2 =
                    (if str_in ''Video with Audio'' mode then video_with_audio_update ydl_opts1
                     else if str_in ''Audio'' mode then audio_update ydl_opts1
                     else if str_in ''Video without Audio'' mode then video_only_update ydl_opts1
                     else ydl_opts1)
              in case run_download_with_log e ydl_opts2 urls mode s0 of
                   Inl err \<Rightarrow> Inl (err, s0)
                 | Inr (out, s') \<Rightarrow>
                     Inr (\<lparr> b_opts = ydl_opts2, b_urls = urls, b_desc = mode,
                            b_registry = FAILED_DOWNLOADS s0, b_first = fetches s0,
                            b_outcome = out \<rparr>, s')))"

text \<open>
  \<^verbatim>\<open>failed_by_desc\<close>: a \<^verbatim>\<open>defaultdict(list)\<close>, whose keys keep the order in which they
  were first inserted; an association list in that order.
\<close>

fun add_to_group :: "string \<Rightarrow> string \<Rightarrow> (string \<times> string list) list \<Rightarrow> (string \<times> string list) list" where
  "add_to_group d url [] = [(d, [url])]"
| "add_to_group d url ((k, us) # rest) =
     (if k = d then (k, us @ [url]) # rest else (k, us) # add_to_group d url rest)"

fun group_by_desc :: "failure list \<Rightarrow> (string \<times> string list) list \<Rightarrow> (string \<times> string list) list" where
  "group_by_desc [] failed_by_desc = failed_by_desc"
| "group_by_desc ((url, d, err) # rest) failed_by_desc =
     group_by_desc rest (add_to_group d url failed_by_desc)"

text \<open>\<^verbatim>\<open>for desc, urls in failed_by_desc.items()\<close>; an exception ends the loop.\<close>

fun retry_groups :: "env \<Rightarrow> (string \<times> string list) list \<Rightarrow> state
    \<Rightarrow> error option \<times> batch list \<times> state" where
  "retry_groups e [] s = (None, [], s)"
| "retry_groups e ((desc, urls) # rest) s =
     (case retry_downloads e urls desc s of
        Inl (err, s1) \<Rightarrow> (Some err, [], s1)
      | Inr (b, s1) \<Rightarrow>
          (let (err, bs, s2) = retry_groups e rest s1
           in (err, b # bs, s2)))"

text \<open>
  \<^verbatim>\<open>idxs\<close>: the list comprehension over the pieces between commas. A piece that is a
  digit string when stripped is read as an integer and lowered by one, the other pieces
  are left out; the first piece that \<^verbatim>\<open>int()\<close> refuses ends the comprehension with its
  \<^verbatim>\<open>ValueError\<close>.
\<close>

fun read_idxs :: "env \<Rightarrow> string list \<Rightarrow> error + int list" where
  "read_idxs e [] = Inr []"
| "read_idxs e (i # rest) =
     (if str_isdigit (str_strip i) then
        (case py_int e (str_strip i) of
           Inl err \<Rightarrow> Inl err
         | Inr n \<Rightarrow>
             (case read_idxs e rest of
                Inl err \<Rightarrow> Inl err
              | Inr ns \<Rightarrow> Inr ((n - 1) # ns)))
      else read_idxs e rest)"

definition parse_idxs :: "env \<Rightarrow> string \<Rightarrow> error + int list" where
  "parse_idxs e choice = read_idxs e (str_split (CHR '','') choice)"

text \<open>\<^verbatim>\<open>FAILED_DOWNLOADS.pop(idx)\<close> for an index in range: the list without that position.\<close>

definition pop_at :: "nat \<Rightarrow> 'a list \<Rightarrow> 'a list" where
  "pop_at i xs = take i xs @ drop (Suc i) xs"

text \<open>
  \<^verbatim>\<open>for idx in sorted(idxs, reverse=True)\<close>: each index is tested against the list as it
  is at that moment, and pops from it.
\<close>

fun pop_each :: "int list \<Rightarrow> failure list \<Rightarrow> failure list \<Rightarrow> failure list \<times> failure list" where
  "pop_each [] to_retry registry = (to_retry, registry)"
| "pop_each (idx # rest) to_retry registry =
     (if 0 \<le> idx \<and> idx < int (length registry)
      then pop_each rest (to_retry @ [registry ! nat idx]) (pop_at (nat idx) registry)
      else pop_each rest to_retry registry)"

text \<open>\<^verbatim>\<open>for url, desc, _ in reversed(to_retry)\<close>, given the reversed list.\<close>

fun retry_each :: "env \<Rightarrow> failure list \<Rightarrow> state \<Rightarrow> error option \<times> batch list \<times> state" where
  "retry_each e [] s = (None, [], s)"
| "retry_each e ((url, desc, err) # rest) s =
     (case retry_downloads e [url] desc s of
        Inl (err, s1) \<Rightarrow> (Some err, [], s1)
      | Inr (b, s1) \<Rightarrow>
          (let (err, bs, s2) = retry_each e rest s1
           in (err, b # bs, s2)))"

text \<open>
  \<^verbatim>\<open>resume_failed_downloads\<close>. The argument is what \<^verbatim>\<open>input()\<close> gives at
  \<^verbatim>\<open>Choose action:\<close>: a line, or \<open>None\<close> for \<^verbatim>\<open>EOFError\<close>, which is not caught here. With
  an empty registry the function returns before it asks. The result is the exception
  that left the function, if one did, the batches issued, and the state afterwards.
\<close>

definition resume_failed_downloads :: "env \<Rightarrow> string option \<Rightarrow> state
    \<Rightarrow> error option \<times> batch list \<times> state" where
  "resume_failed_downloads e inp s =
     (if FAILED_DOWNLOADS s = [] then (None, [], s)
      else case inp of
        None \<Rightarrow> (Some EOFError, [], s)
      | Some line \<Rightarrow>
        (let choice = str_lower (str_strip line)
         in if choice = ''c'' then (None, [], s)
            else if choice = ''a'' then
              (let failed_by_desc = group_by_desc (FAILED_DOWNLOADS s) [];
                   s1 = s\<lparr> FAILED_DOWNLOADS := [] \<rparr>
               in retry_groups e failed_by_desc s1)
            else if str_in '','' choice then
              (case parse_idxs e choice of
                 Inl err \<Rightarrow> (Some err, [], s)
               | Inr idxs \<Rightarrow>
                   (let (to_retry, registry) = pop_each (rev (sort idxs)) [] (FAILED_DOWNLOADS s);
                        s1 = s\<lparr> FAILED_DOWNLOADS := registry \<rparr>
                    in retry_each e (rev to_retry) s1))
            else if str_isdigit choice then
              (case py_int e choice of
                 Inl err \<Rightarrow> (Some err, [], s)
               | Inr n \<Rightarrow>
                   (let idx = n - 1
                    in if 0 \<le> idx \<and> idx < int (length (FAILED_DOWNLOADS s)) then
                         (let r = FAILED_DOWNLOADS s ! nat idx;
                              s1 = s\<lparr> FAILED_DOWNLOADS := pop_at (nat idx) (FAILED_DOWNLOADS s) \<rparr>
                          in case retry_downloads e [f_url r] (f_desc r) s1 of
                               Inl (err, s2) \<Rightarrow> (Some err, [], s2)
                             | Inr (b, s2) \<Rightarrow> (None, [b], s2))
                       else (None, [], s)))
            else (None, [], s)))"

subsection \<open>Notions used to state the properties\<close>

text \<open>
  The options that the downloads of a batch are run with: the given ones for a batch of
  one URL, the copy without progress hooks and with \<^verbatim>\<open>quiet\<close> set for a larger batch.
\<close>

definition worker_opts :: "ydl_opts \<Rightarrow> string list \<Rightarrow> ydl_opts" where
  "worker_opts opts urls =
     (if length urls = 1 then opts else opts\<lparr> progress_hooks := [], quiet := True \<rparr>)"

text \<open>What \<^verbatim>\<open>download_single\<close> returns for job \<open>i\<close> of a batch that starts at number \<open>k\<close>.\<close>

definition job_result :: "env \<Rightarrow> nat \<Rightarrow> ydl_opts \<Rightarrow> string list \<Rightarrow> string \<Rightarrow> nat \<Rightarrow> failure option" where
  "job_result e k opts urls desc i =
     download_single e (k + i) (worker_opts opts urls) (urls ! i) desc"

text \<open>
  The first line of a message, said without the function of the model: \<open>m\<close> has no line
  feed, and the message is \<open>m\<close> or goes on with a line feed right after \<open>m\<close>.
\<close>

definition first_line_of :: "string \<Rightarrow> string \<Rightarrow> bool" where
  "first_line_of m msg =
     (CHR 0x0A \<notin> set m \<and> (msg = m \<or> starts_with (m @ [CHR 0x0A]) msg))"

text \<open>
  The batch \<open>b\<close> was really run: its \<open>succeeded\<close> list is the URLs, in order, whose
  download completed, and its \<open>failed\<close> list has, in order, one record with the URL and
  the label of the batch for every URL whose download raised. The download of the URL
  at position \<open>i\<close> is the one submitted as number \<open>b_first b + i\<close>.
\<close>

definition ran :: "env \<Rightarrow> batch \<Rightarrow> bool" where
  "ran e b =
     (let urls = b_urls b;
          completed = (\<lambda>i. fetch e (b_first b + i) (worker_opts (b_opts b) urls) (urls ! i) = Completed)
      in succeeded (b_outcome b) = map (nth urls) (filter completed [0..<length urls])
         \<and> map (\<lambda>r. (f_url r, f_desc r)) (failed (b_outcome b))
             = map (\<lambda>i. (urls ! i, b_desc b)) (filter (\<lambda>i. \<not> completed i) [0..<length urls]))"



text \<open>
  The exception that the \<open>n\<close>-th directory prompt raises, if it raises one; the prompt
  returns a directory; and, of the \<open>m\<close> prompts from the \<open>n\<close>-th on, the number that return
  before the first one that raises.
\<close>

definition prompt_error :: "env \<Rightarrow> nat \<Rightarrow> error option" where
  "prompt_error e n = (case get_output_dir e n of Inl err \<Rightarrow> Some err | Inr dir \<Rightarrow> None)"

definition prompt_ok :: "env \<Rightarrow> nat \<Rightarrow> bool" where
  "prompt_ok e n = (prompt_error e n = None)"

definition served :: "env \<Rightarrow> nat \<Rightarrow> nat \<Rightarrow> nat" where
  "served e n m = length (takeWhile (prompt_ok e) [n..<n + m])"

text \<open>
  A string that \<^verbatim>\<open>int()\<close> reads in the given environment: decimal digits, at least one,
  and no more of them than the interpreter's limit allows.
\<close>

definition within_digit_limit :: "env \<Rightarrow> string \<Rightarrow> bool" where
  "within_digit_limit e v =
     (\<not> (0 < max_str_digits e \<and> max_str_digits e < length v \<and> 640 < length v))"

definition int_readable :: "env \<Rightarrow> string \<Rightarrow> bool" where
  "int_readable e v = (v \<noteq> [] \<and> list_all is_decimal v \<and> within_digit_limit e v)"

text \<open>The test that \<^verbatim>\<open>is_pure_playlist_url\<close> makes on the lower-cased \<^verbatim>\<open>netloc\<close>.\<close>

definition youtube_host :: "string \<Rightarrow> bool" where
  "youtube_host domain = (str_in ''youtube.com'' domain \<or> str_in ''youtu.be'' domain)"

text \<open>
  A query string contains a parameter of a given name: one of its pieces between
  ampersands is the name, or starts with the name and an equals sign. This is said of the
  query string itself, without \<^verbatim>\<open>parse_qs\<close>.
\<close>

definition query_has_param :: "string \<Rightarrow> string \<Rightarrow> bool" where
  "query_has_param name q =
     list_ex (\<lambda>piece. piece = name \<or> starts_with (name @ ''='') piece) (str_split (CHR ''&'') q)"

text \<open>What \<^verbatim>\<open>get_urls\<close> reads: the stripped lines up to the first empty one.\<close>

definition typed_urls :: "string list \<Rightarrow> string list" where
  "typed_urls lines = takeWhile (\<lambda>url. url \<noteq> []) (map str_strip lines)"

text \<open>A playlist URL whose lookup returns an \<^verbatim>\<open>entries\<close> collection with no item.\<close>

definition empty_playlist :: "env \<Rightarrow> string \<Rightarrow> bool" where
  "empty_playlist e pl_url =
     (case extract_info e pl_url of Inl msg \<Rightarrow> False | Inr pl_info \<Rightarrow> entries pl_info = Some [])"

text \<open>
  What the playlist loop may do with such a URL: never the skip as not a playlist;
  either a batch without URLs and with an empty outcome, or the caught exception of
  \<^verbatim>\<open>os.makedirs\<close>.
\<close>

definition empty_playlist_event :: "env \<Rightarrow> pl_event \<Rightarrow> bool" where
  "empty_playlist_event e ev =
     (case ev of
        NotAPlaylist u \<Rightarrow> False
      | Ran b \<Rightarrow> b_urls b = [] \<and> succeeded (b_outcome b) = [] \<and> failed (b_outcome b) = []
      | ErrorProcessing u msg \<Rightarrow> (\<exists>path. makedirs e path = Some msg))"




text \<open>The test \<^verbatim>\<open>0 <= idx < len(FAILED_DOWNLOADS)\<close> on a given registry.\<close>

definition in_range :: "'a list \<Rightarrow> int \<Rightarrow> bool" where
  "in_range registry idx = (0 \<le> idx \<and> idx < int (length registry))"



text \<open>
  The states of a session: the initial state, and every state in which one of the menu
  operations, called in a state of the session, leaves the globals, whether it returns
  or raises.
\<close>

inductive reachable :: "env \<Rightarrow> state \<Rightarrow> bool" for e :: env where
  start: "reachable e initial_state"
| settings: "reachable e s \<Longrightarrow> download_thread_settings e inp s = (err, s') \<Longrightarrow> reachable e s'"
| resume: "reachable e s \<Longrightarrow> resume_failed_downloads e inp s = (err, bs, s') \<Longrightarrow> reachable e s'"
| video_with_audio:
    "reachable e s \<Longrightarrow> download_video_with_audio e lines s = (err, bs, s') \<Longrightarrow> reachable e s'"
| audio_single:
    "reachable e s \<Longrightarrow> download_audio_single e lines s = (err, bs, s') \<Longrightarrow> reachable e s'"
| video_only_single:
    "reachable e s \<Longrightarrow> download_video_only_single e lines s = (err, bs, s') \<Longrightarrow> reachable e s'"
| video_with_audio_playlist:
    "reachable e s \<Longrightarrow> download_video_with_audio_playlist e lines s = (err, evs, s') \<Longrightarrow> reachable e s'"
| audio_playlist:
    "reachable e s \<Longrightarrow> download_audio_playlist e lines s = (err, evs, s') \<Longrightarrow> reachable e s'"
| video_only_playlist:
    "reachable e s \<Longrightarrow> download_video_only_playlist e lines s = (err, evs, s') \<Longrightarrow> reachable e s'"

subsection \<open>Example environments\<close>

text \<open>
  An environment for the examples. The download of \<^verbatim>\<open>https://example.com/b\<close> and of
  \<^verbatim>\<open>https://example.com/v\<close> fails with a message of two lines, every other download
  completes. Every directory prompt is answered with \<^verbatim>\<open>/tmp/out\<close>, which can be created.
  For the URLs and the query strings of the examples, \<open>urlparse\<close> and \<open>parse_qs\<close> give what
  \<^verbatim>\<open>urllib.parse\<close> gives for them (\<open>parse_qs\<close> leaves out a parameter whose value is
  blank). The playlist lookup knows one playlist, which is empty. The limit on the digits
  of an integer is 4300; the messages of \<^verbatim>\<open>int()\<close> are given without their detail.
\<close>

definition demo_env :: env where
  "demo_env =
     \<lparr> fetch = (\<lambda>n opts url.
         if url = ''https://example.com/b'' \<or> url = ''https://example.com/v''
         then Raised (''ERROR: unavailable'' @ [CHR 0x0A] @ ''try again later'')
         else Completed),
       dir_input = (\<lambda>n. Some ''/tmp/out''),
       home = ''/home/user'',
       isdir = (\<lambda>path. True),
       makedirs = (\<lambda>path. None),
       urlparse = (\<lambda>url.
         if url = ''https://www.youtube.com/playlist?list=PL1''
         then Some \<lparr> netloc = ''www.youtube.com'', query = ''list=PL1'',
                      hostname = Some ''www.youtube.com'' \<rparr>
         else if url = ''https://www.YouTube.com/playlist?list=PL1''
         then Some \<lparr> netloc = ''www.YouTube.com'', query = ''list=PL1'',
                      hostname = Some ''www.youtube.com'' \<rparr>
         else if url = ''https://www.youtube.com/playlist?list=''
         then Some \<lparr> netloc = ''www.youtube.com'', query = ''list='',
                      hostname = Some ''www.youtube.com'' \<rparr>
         else if url = ''https://www.youtube.com/watch?v=&list=PL1''
         then Some \<lparr> netloc = ''www.youtube.com'', query = ''v=&list=PL1'',
                      hostname = Some ''www.youtube.com'' \<rparr>
         else if url = ''https://vimeo.com/showcase/1?list=PL1''
         then Some \<lparr> netloc = ''vimeo.com'', query = ''list=PL1'', hostname = Some ''vimeo.com'' \<rparr>
         else if url = ''https://youtube.com@vimeo.com/showcase/1?list=PL1''
         then Some \<lparr> netloc = ''youtube.com@vimeo.com'', query = ''list=PL1'',
                      hostname = Some ''vimeo.com'' \<rparr>
         else if url = ''https://example.com/a'' \<or> url = ''https://example.com/b''
                 \<or> url = ''https://example.com/c'' \<or> url = ''https://example.com/v''
         then Some \<lparr> netloc = ''example.com'', query = [], hostname = Some ''example.com'' \<rparr>
         else None),
       parse_qs = (\<lambda>q.
         if q = ''list=PL1'' \<or> q = ''v=&list=PL1'' then [''list'' \<mapsto> [''PL1'']] else Map.empty),
       extract_info = (\<lambda>url.
         if url = ''https://www.youtube.com/playlist?list=PL1''
         then Inr \<lparr> title = Some ''Empty'', entries = Some [] \<rparr>
         else Inl ''ERROR: unsupported URL''),
       sanitize_filename = (\<lambda>t. t),
       max_str_digits = 4300,
       int_error_text = (\<lambda>s.
         if list_all is_decimal s then ''Exceeds the limit for integer string conversion''
         else ''invalid literal for int() with base 10'') \<rparr>"

text \<open>The same environment with the input closed: every directory prompt raises.\<close>

definition closed_input_env :: env where
  "closed_input_env = demo_env\<lparr> dir_input := (\<lambda>n. None) \<rparr>"

text \<open>A registry of three records for the examples, and a state that holds it.\<close>

definition demo_registry :: "failure list" where
  "demo_registry =
     [(''https://example.com/a'', ''Audio'', ''ERROR: timed out''),
      (''https://example.com/v'', ''Video without Audio'', ''ERROR: timed out''),
      (''https://example.com/b'', ''Audio'', ''ERROR: timed out'')]"

definition demo_state :: state where
  "demo_state = initial_state\<lparr> FAILED_DOWNLOADS := demo_registry \<rparr>"

section \<open>Properties\<close>

subsection \<open>What a batch returns\<close>

text \<open>
  The loop that collects the futures, and with it \<^verbatim>\<open>run_download\<close>, in closed form: the
  URLs of the jobs that returned nothing, and the failure tuples of the others, both in
  the order of the jobs.
\<close>

lemma collect_eq:
  "collect ps ok bad =
     (ok @ map fst (filter (\<lambda>p. snd p = None) ps), bad @ List.map_filter snd ps)"
  by (induction ps arbitrary: ok bad) (auto simp: map_filter_simps split: option.splits)

lemma zip_map_upt:
  "zip xs (map g [0..<length xs]) = map (\<lambda>i. (xs ! i, g i)) [0..<length xs]"
  by (rule nth_equalityI) simp_all

lemma nths_conv_filter:
  "nths xs A = map (nth xs) (filter (\<lambda>i. i \<in> A) [0..<length xs])"
proof -
  have "zip xs [0..<length xs] = map (\<lambda>i. (xs ! i, i)) [0..<length xs]"
    using zip_map_upt [of xs id] by simp
  then show ?thesis
    by (simp add: nths_def filter_map o_def)
qed

lemma map_filter_map: "List.map_filter snd (map (\<lambda>i. (f i, g i)) is) = List.map_filter g is"
  by (induction "is") (simp_all add: map_filter_simps split: option.splits)

lemma collect_futures:
  "collect (zip urls (submit_all e k opts urls desc)) [] [] =
     (map (nth urls) (filter (\<lambda>i. download_single e (k + i) opts (urls ! i) desc = None) [0..<length urls]),
      List.map_filter (\<lambda>i. download_single e (k + i) opts (urls ! i) desc) [0..<length urls])"
  by (simp add: collect_eq submit_all_def zip_map_upt filter_map o_def map_filter_map)

lemma run_download_char:
  assumes "length urls \<le> 1 \<or> 1 \<le> MAX_WORKERS s"
  shows "run_download e opts urls desc s =
     Inr (\<lparr> succeeded = map (nth urls)
               (filter (\<lambda>i. job_result e (fetches s) opts urls desc i = None) [0..<length urls]),
            failed = List.map_filter (job_result e (fetches s) opts urls desc) [0..<length urls] \<rparr>,
          s\<lparr> fetches := fetches s + length urls,
             FAILED_DOWNLOADS := FAILED_DOWNLOADS s
               @ List.map_filter (job_result e (fetches s) opts urls desc) [0..<length urls] \<rparr>)"
proof (cases urls)
  case Nil
  then show ?thesis by (simp add: run_download_def map_filter_simps)
next
  case (Cons u us)
  show ?thesis
  proof (cases us)
    case Nil
    with Cons show ?thesis
      by (cases "download_single e (fetches s) opts u desc")
         (simp_all add: run_download_def job_result_def worker_opts_def map_filter_simps)
  next
    case (Cons v vs)
    with \<open>urls = u # us\<close> assms have big: "length urls \<noteq> 1" "urls \<noteq> []" "\<not> MAX_WORKERS s \<le> 0"
      by auto
    have wo: "worker_opts opts urls = opts\<lparr> progress_hooks := [], quiet := True \<rparr>"
      using big by (simp add: worker_opts_def)
    have jr: "job_result e (fetches s) opts urls desc =
        (\<lambda>i. download_single e (fetches s + i) (opts\<lparr> progress_hooks := [], quiet := True \<rparr>) (urls ! i) desc)"
      by (rule ext) (simp add: job_result_def wo)
    show ?thesis
      using big
      by (cases "List.map_filter (job_result e (fetches s) opts urls desc) [0..<length urls] = []")
         (simp_all add: run_download_def collect_futures jr Let_def)
  qed
qed

lemma job_result_url: "job_result e k opts urls desc i = Some r \<Longrightarrow> f_url r = urls ! i"
  by (auto simp: job_result_def download_single_def f_url_def split: fetch_result.splits)

lemma failed_urls:
  "map f_url (List.map_filter (job_result e k opts urls desc) is) =
     map (nth urls) (filter (\<lambda>i. job_result e k opts urls desc i \<noteq> None) is)"
  by (induction "is") (auto simp: map_filter_simps job_result_url split: option.splits)

lemma set_map_filter: "set (List.map_filter f xs) = {y. \<exists>x\<in>set xs. f x = Some y}"
  by (induction xs) (auto simp: map_filter_simps split: option.splits)

text \<open>The model's \<open>first_line\<close> is the first piece of \<^verbatim>\<open>split('\n')\<close>.\<close>

lemma first_line_no_newline: "CHR 0x0A \<notin> set msg \<Longrightarrow> first_line msg = msg"
  by (auto simp: first_line_def)

lemma first_line_split: "CHR 0x0A \<notin> set a \<Longrightarrow> first_line (a @ CHR 0x0A # b) = a"
  by (auto simp: first_line_def takeWhile_append)

text \<open>A batch of three on the example environment, evaluated.\<close>

lemma run_download_example:
  "run_download demo_env (base_ydl_opts ''/tmp/out'')
     [''https://example.com/a'', ''https://example.com/b'', ''https://example.com/c''] ''Audio'' initial_state
   = Inr (\<lparr> succeeded = [''https://example.com/a'', ''https://example.com/c''],
            failed = [(''https://example.com/b'', ''Audio'', ''ERROR: unavailable'')] \<rparr>,
          \<lparr> FAILED_DOWNLOADS = [(''https://example.com/b'', ''Audio'', ''ERROR: unavailable'')],
            MAX_WORKERS = 5, fetches = 3, prompts = 0 \<rparr>)"
  by (simp add: run_download_def initial_state_def submit_all_def download_single_def demo_env_def
      first_line_def upt_rec)


subsection \<open>An empty batch\<close>

text \<open>
  C7. \<^verbatim>\<open>run_download\<close> on an empty list of URLs returns at once, whatever the options, the
  label and the state are: the outcome is empty and the state, the failure registry in
  particular, is the state before the call.
\<close>

theorem run_download_empty:
  "run_download e opts [] desc s = Inr (\<lparr> succeeded = [], failed = [] \<rparr>, s)"
  by (simp add: run_download_def)

subsection \<open>Every job is reported once, in submission order\<close>

text \<open>
  C2. For a non-empty list of URLs and a concurrency limit of at least 1,
  \<^verbatim>\<open>run_download\<close> returns, and its two lists split the positions of the jobs: there is
  a set \<open>S\<close> of positions such that \<open>succeeded\<close> is the URLs at the positions in \<open>S\<close> and
  the URLs of \<open>failed\<close> are the URLs at the positions outside \<open>S\<close>, each in the order of
  submission. So every job has exactly one entry, and the two lengths add up to the
  number of jobs. The outcome of job \<open>i\<close> is whatever the environment gives for it; the
  order in which concurrent downloads finish plays no part in the result.
\<close>

theorem run_download_partition:
  assumes "urls \<noteq> []" and "1 \<le> MAX_WORKERS s"
  shows "\<exists>out s'. run_download e opts urls desc s = Inr (out, s')
     \<and> (\<exists>S. succeeded out = nths urls S \<and> map f_url (failed out) = nths urls (- S))
     \<and> length (succeeded out) + length (failed out) = length urls"
proof -
  let ?jr = "job_result e (fetches s) opts urls desc"
  let ?S = "{i. ?jr i = None}"
  let ?idx = "[0..<length urls]"
  have ok: "map (nth urls) (filter (\<lambda>i. ?jr i = None) ?idx) = nths urls ?S"
    by (simp add: nths_conv_filter)
  have bad: "map f_url (List.map_filter ?jr ?idx) = nths urls (- ?S)"
    by (simp add: nths_conv_filter failed_urls)
  have "length (List.map_filter ?jr ?idx) = length (filter (\<lambda>i. ?jr i \<noteq> None) ?idx)"
    by (simp add: map_filter_def)
  then have len: "length (filter (\<lambda>i. ?jr i = None) ?idx) + length (List.map_filter ?jr ?idx)
      = length urls"
    using sum_length_filter_compl [of "\<lambda>i. ?jr i = None" ?idx] by simp
  have run: "run_download e opts urls desc s =
      Inr (\<lparr> succeeded = map (nth urls) (filter (\<lambda>i. ?jr i = None) ?idx),
             failed = List.map_filter ?jr ?idx \<rparr>,
           s\<lparr> fetches := fetches s + length urls,
              FAILED_DOWNLOADS := FAILED_DOWNLOADS s @ List.map_filter ?jr ?idx \<rparr>)"
    using assms(2) by (simp add: run_download_char)
  have "\<exists>S. map (nth urls) (filter (\<lambda>i. ?jr i = None) ?idx) = nths urls S
      \<and> map f_url (List.map_filter ?jr ?idx) = nths urls (- S)"
    using ok bad by blast
  with run len show ?thesis by simp
qed

theorem run_download_partition_witness:
  "[''https://example.com/a'', ''https://example.com/b'', ''https://example.com/c''] \<noteq> []
   \<and> 1 \<le> MAX_WORKERS initial_state
   \<and> (\<exists>out s'. run_download demo_env (base_ydl_opts ''/tmp/out'')
          [''https://example.com/a'', ''https://example.com/b'', ''https://example.com/c'']
          ''Audio'' initial_state = Inr (out, s')
     \<and> (\<exists>S. succeeded out = nths [''https://example.com/a'', ''https://example.com/b'', ''https://example.com/c''] S
           \<and> map f_url (failed out) = nths [''https://example.com/a'', ''https://example.com/b'', ''https://example.com/c''] (- S))
     \<and> length (succeeded out) + length (failed out)
        = length [''https://example.com/a'', ''https://example.com/b'', ''https://example.com/c''])"
  using run_download_partition [of "[''https://example.com/a'', ''https://example.com/b'', ''https://example.com/c'']"
      initial_state demo_env "base_ydl_opts ''/tmp/out''" "''Audio''"]
  by (simp add: initial_state_def)

subsection \<open>Errors of the download become failure records\<close>

text \<open>The test for a prefix, and the first line of a message.\<close>

lemma starts_with_iff: "starts_with p s \<longleftrightarrow> (\<exists>q. s = p @ q)"
  by (induction p s rule: starts_with.induct) auto

lemma first_line_is_first_line_of: "first_line_of (first_line msg) msg"
proof -
  let ?P = "\<lambda>c. c \<noteq> CHR 0x0A"
  have no_lf: "CHR 0x0A \<notin> set (takeWhile ?P msg)"
    by (auto dest: set_takeWhileD)
  have split: "msg = takeWhile ?P msg @ dropWhile ?P msg" by simp
  show ?thesis
  proof (cases "dropWhile ?P msg")
    case Nil
    with split have "msg = takeWhile ?P msg" by simp
    with no_lf show ?thesis by (simp add: first_line_of_def first_line_def)
  next
    case (Cons c rest)
    from hd_dropWhile [of ?P msg] Cons have "c = CHR 0x0A" by auto
    with split Cons have "msg = (takeWhile ?P msg @ [CHR 0x0A]) @ rest" by simp
    then have "starts_with (takeWhile ?P msg @ [CHR 0x0A]) msg"
      unfolding starts_with_iff by blast
    with no_lf show ?thesis by (simp add: first_line_of_def first_line_def)
  qed
qed

text \<open>A message has one first line.\<close>

lemma first_line_of_unique:
  assumes "first_line_of m msg"
  shows "m = first_line msg"
proof -
  from assms have no_lf: "CHR 0x0A \<notin> set m"
    and cases: "msg = m \<or> starts_with (m @ [CHR 0x0A]) msg"
    by (simp_all add: first_line_of_def)
  from cases show ?thesis
  proof
    assume "msg = m"
    with no_lf show ?thesis by (simp add: first_line_no_newline)
  next
    assume "starts_with (m @ [CHR 0x0A]) msg"
    then obtain rest where "msg = m @ CHR 0x0A # rest"
      by (auto simp: starts_with_iff)
    with no_lf show ?thesis by (simp add: first_line_split)
  qed
qed

lemma failed_records:
  "list_all2
     (\<lambda>r i. f_url r = urls ! i \<and> f_desc r = desc
        \<and> (\<exists>msg. fetch e (k + i) (worker_opts opts urls) (urls ! i) = Raised msg
              \<and> first_line_of (f_error r) msg))
     (List.map_filter (job_result e k opts urls desc) is)
     (filter (\<lambda>i. fetch e (k + i) (worker_opts opts urls) (urls ! i) \<noteq> Completed) is)"
proof (induction "is")
  case Nil
  then show ?case by (simp add: map_filter_simps)
next
  case (Cons i "is")
  show ?case
  proof (cases "fetch e (k + i) (worker_opts opts urls) (urls ! i)")
    case Completed
    with Cons show ?thesis
      by (simp add: map_filter_simps job_result_def download_single_def)
  next
    case (Raised msg)
    with Cons show ?thesis
      by (simp add: map_filter_simps job_result_def download_single_def f_url_def f_desc_def
          f_error_def first_line_is_first_line_of)
  qed
qed

lemma succeeded_urls:
  "filter (\<lambda>i. job_result e k opts urls desc i = None) is
     = filter (\<lambda>i. fetch e (k + i) (worker_opts opts urls) (urls ! i) = Completed) is"
  by (rule filter_cong) (auto simp: job_result_def download_single_def split: fetch_result.splits)

text \<open>
  C5. With a concurrency limit of at least 1, \<^verbatim>\<open>run_download\<close> returns normally
  whatever the downloads raise. Its \<open>failed\<close> list matches, one to one and in job order,
  the jobs whose download raised: the record of such a job has the URL of the job, the
  label of the batch, and as its message the first line of the text of the exception
  (the text up to its first line feed, or all of it when it has none). Its
  \<open>succeeded\<close> list is the URLs of the jobs whose download completed, also of those that
  come after a job that raised. The registry afterwards is the registry before followed
  by \<open>failed\<close>.
\<close>

theorem fetch_errors_become_failures:
  assumes "1 \<le> MAX_WORKERS s"
  shows "\<exists>out s'. run_download e opts urls desc s = Inr (out, s')
     \<and> list_all2
         (\<lambda>r i. f_url r = urls ! i \<and> f_desc r = desc
            \<and> (\<exists>msg. fetch e (fetches s + i) (worker_opts opts urls) (urls ! i) = Raised msg
                  \<and> first_line_of (f_error r) msg))
         (failed out)
         (filter (\<lambda>i. fetch e (fetches s + i) (worker_opts opts urls) (urls ! i) \<noteq> Completed)
            [0..<length urls])
     \<and> succeeded out = map (nth urls)
         (filter (\<lambda>i. fetch e (fetches s + i) (worker_opts opts urls) (urls ! i) = Completed)
            [0..<length urls])
     \<and> FAILED_DOWNLOADS s' = FAILED_DOWNLOADS s @ failed out"
proof -
  let ?jr = "job_result e (fetches s) opts urls desc"
  let ?idx = "[0..<length urls]"
  have run: "run_download e opts urls desc s =
      Inr (\<lparr> succeeded = map (nth urls) (filter (\<lambda>i. ?jr i = None) ?idx),
             failed = List.map_filter ?jr ?idx \<rparr>,
           s\<lparr> fetches := fetches s + length urls,
              FAILED_DOWNLOADS := FAILED_DOWNLOADS s @ List.map_filter ?jr ?idx \<rparr>)"
    using assms by (simp add: run_download_char)
  show ?thesis
    unfolding run
    using failed_records [of urls desc e "fetches s" opts ?idx]
    by (simp add: succeeded_urls)
qed

theorem fetch_errors_become_failures_witness:
  "1 \<le> MAX_WORKERS initial_state
   \<and> (\<exists>out s'. run_download demo_env (base_ydl_opts ''/tmp/out'')
          [''https://example.com/a'', ''https://example.com/b''] ''Audio'' initial_state = Inr (out, s')
     \<and> failed out = [(''https://example.com/b'', ''Audio'', ''ERROR: unavailable'')]
     \<and> fetch demo_env 1
          (worker_opts (base_ydl_opts ''/tmp/out'') [''https://example.com/a'', ''https://example.com/b''])
          ''https://example.com/b''
        = Raised (''ERROR: unavailable'' @ [CHR 0x0A] @ ''try again later'')
     \<and> first_line_of ''ERROR: unavailable'' (''ERROR: unavailable'' @ [CHR 0x0A] @ ''try again later'')
     \<and> list_all2
         (\<lambda>r i. f_url r = [''https://example.com/a'', ''https://example.com/b''] ! i \<and> f_desc r = ''Audio''
            \<and> (\<exists>msg. fetch demo_env (fetches initial_state + i)
                    (worker_opts (base_ydl_opts ''/tmp/out'') [''https://example.com/a'', ''https://example.com/b''])
                    ([''https://example.com/a'', ''https://example.com/b''] ! i) = Raised msg
                  \<and> first_line_of (f_error r) msg))
         (failed out) [1]
     \<and> succeeded out = [''https://example.com/a'']
     \<and> FAILED_DOWNLOADS s' = [(''https://example.com/b'', ''Audio'', ''ERROR: unavailable'')])"
  using fetch_errors_become_failures [of initial_state demo_env "base_ydl_opts ''/tmp/out''"
      "[''https://example.com/a'', ''https://example.com/b'']" "''Audio''"]
  by (simp add: run_download_def initial_state_def submit_all_def download_single_def demo_env_def
      first_line_def first_line_of_def f_url_def f_desc_def f_error_def upt_rec)

subsection \<open>Playlists without entries\<close>

lemma issue_empty:
  "issue e opts [] desc s =
     Inr (\<lparr> b_opts = opts, b_urls = [], b_desc = desc, b_registry = FAILED_DOWNLOADS s,
            b_first = fetches s, b_outcome = \<lparr> succeeded = [], failed = [] \<rparr> \<rparr>, s)"
  by (simp add: issue_def run_download_def)

lemma process_empty_playlist:
  assumes "empty_playlist e pl_url"
  shows "\<exists>ev. process_playlist update desc e output_dir pl_url s = (ev, s)
           \<and> empty_playlist_event e ev \<and> event_failures ev = []"
proof -
  from assms obtain pl_info where i: "extract_info e pl_url = Inr pl_info" "entries pl_info = Some []"
    by (auto simp: empty_playlist_def split: sum.splits)
  show ?thesis
    using i
    by (auto simp: process_playlist_def Let_def issue_empty
        empty_playlist_event_def event_failures_def split: option.splits)
qed

lemma issue_registry:
  "issue e opts urls desc s = Inr (b, s') \<Longrightarrow>
     FAILED_DOWNLOADS s' = FAILED_DOWNLOADS s @ failed (b_outcome b)"
  by (auto simp: issue_def run_download_def Let_def split: if_splits sum.splits prod.splits option.splits)

lemma process_playlist_registry:
  "process_playlist update desc e output_dir pl_url s = (ev, s') \<Longrightarrow>
     FAILED_DOWNLOADS s' = FAILED_DOWNLOADS s @ event_failures ev"
  by (auto simp: process_playlist_def Let_def event_failures_def
      split: sum.splits option.splits prod.splits dest: issue_registry)

lemma process_playlists_registry:
  "process_playlists update desc e output_dir urls s = (evs, s') \<Longrightarrow>
     length evs = length urls
     \<and> FAILED_DOWNLOADS s' = FAILED_DOWNLOADS s @ concat (map event_failures evs)"
proof (induction urls arbitrary: s evs s')
  case Nil
  then show ?case by simp
next
  case (Cons u us)
  obtain ev s1 where one: "process_playlist update desc e output_dir u s = (ev, s1)"
    by (cases "process_playlist update desc e output_dir u s")
  obtain evs' s2 where many: "process_playlists update desc e output_dir us s1 = (evs', s2)"
    by (cases "process_playlists update desc e output_dir us s1")
  from Cons.prems one many have "evs = ev # evs'" "s' = s2" by simp_all
  with Cons.IH [OF many] process_playlist_registry [OF one] show ?case by simp
qed

lemma process_playlists_nth:
  "process_playlists update desc e output_dir urls s = (evs, s') \<Longrightarrow> i < length urls \<Longrightarrow>
     \<exists>si. evs ! i = fst (process_playlist update desc e output_dir (urls ! i) si)"
proof (induction urls arbitrary: s evs s' i)
  case Nil
  then show ?case by simp
next
  case (Cons u us)
  obtain ev s1 where one: "process_playlist update desc e output_dir u s = (ev, s1)"
    by (cases "process_playlist update desc e output_dir u s")
  obtain evs' s2 where many: "process_playlists update desc e output_dir us s1 = (evs', s2)"
    by (cases "process_playlists update desc e output_dir us s1")
  from Cons.prems one many have evs: "evs = ev # evs'" by simp
  show ?case
  proof (cases i)
    case 0
    with evs one have "evs ! i = fst (process_playlist update desc e output_dir ((u # us) ! i) s)"
      by simp
    then show ?thesis by blast
  next
    case (Suc j)
    with Cons.prems have "j < length us" by simp
    from Cons.IH [OF many this] Suc evs show ?thesis by simp
  qed
qed

lemma playlist_mode_events:
  assumes "playlist_mode update desc e lines s = (err, evs, s')"
  shows "(case err of
            None \<Rightarrow> length evs = length (get_urls e True True lines)
          | Some x \<Rightarrow> evs = [] \<and> get_output_dir e (prompts s) = Inl x)
     \<and> FAILED_DOWNLOADS s' = FAILED_DOWNLOADS s @ concat (map event_failures evs)
     \<and> (\<forall>i<length evs. empty_playlist e (get_urls e True True lines ! i)
           \<longrightarrow> empty_playlist_event e (evs ! i) \<and> event_failures (evs ! i) = [])"
proof (cases "get_urls e True True lines = []")
  case True
  with assms show ?thesis by (simp add: playlist_mode_def)
next
  case False
  let ?urls = "get_urls e True True lines"
  let ?s0 = "s\<lparr> prompts := prompts s + 1 \<rparr>"
  show ?thesis
  proof (cases "get_output_dir e (prompts s)")
    case (Inl x)
    with assms False show ?thesis by (auto simp: playlist_mode_def Let_def)
  next
    case (Inr dir)
    with assms False have run: "process_playlists update desc e dir ?urls ?s0 = (evs, s')"
      and err: "err = None"
      by (auto simp: playlist_mode_def Let_def split: prod.splits)
    from process_playlists_registry [OF run]
    have reg: "length evs = length ?urls"
      "FAILED_DOWNLOADS s' = FAILED_DOWNLOADS s @ concat (map event_failures evs)"
      by simp_all
    have "empty_playlist_event e (evs ! i) \<and> event_failures (evs ! i) = []"
      if "i < length evs" "empty_playlist e (?urls ! i)" for i
    proof -
      from that(1) reg(1) have "i < length ?urls" by simp
      from process_playlists_nth [OF run this]
      obtain si where si: "evs ! i = fst (process_playlist update desc e dir (?urls ! i) si)"
        by blast
      from process_empty_playlist [OF that(2), of update desc dir si] si
      show ?thesis by auto
    qed
    with reg err show ?thesis by simp
  qed
qed

lemma concat_all_empty: "(\<forall>i<length xss. xss ! i = []) \<Longrightarrow> concat xss = []"
  by (induction xss) (auto simp: nth_Cons split: nat.splits)

text \<open>The known playlist of the example environment, which is empty, run.\<close>

lemma demo_playlist_run:
  "download_video_with_audio_playlist demo_env [''https://www.youtube.com/playlist?list=PL1''] initial_state
   = (None,
      [Ran \<lparr> b_opts = video_with_audio_update ((base_ydl_opts ''/tmp/out'')
                 \<lparr> outtmpl := ''/tmp/out/Empty/%(title)s [%(id)s].%(ext)s'', noplaylist := Some True \<rparr>),
              b_urls = [], b_desc = ''Playlist Video with Audio'', b_registry = [], b_first = 0,
              b_outcome = \<lparr> succeeded = [], failed = [] \<rparr> \<rparr>],
      initial_state\<lparr> prompts := 1 \<rparr>)"
  by (simp add: download_video_with_audio_playlist_def playlist_mode_def get_urls_def
      is_valid_url_def is_word_def str_strip_def is_space_def demo_env_def get_output_dir_def
      get_default_downloads_dir_def
      process_playlist_def issue_empty path_join_def initial_state_def Let_def)

text \<open>
  C6. \<^verbatim>\<open>download_video_with_audio_playlist\<close> gives one event per playlist URL read (the
  one exception that can leave it is that of the directory prompt, which is asked before
  any URL is looked up; then there is no event), and the registry afterwards is the
  registry before followed by the failures of the batches it ran. For a URL whose lookup
  yields an \<^verbatim>\<open>entries\<close> collection without items, the event is never the skip as not a
  playlist: it is a batch with no URL whose outcome is empty (or, when \<^verbatim>\<open>os.makedirs\<close>
  raised for the playlist directory, the caught exception), and it adds no failure
  record. When every URL is such a playlist the registry is unchanged.
\<close>

theorem empty_playlist_yields_nothing:
  assumes "download_video_with_audio_playlist e lines s = (err, evs, s')"
  shows "(case err of
            None \<Rightarrow> length evs = length (get_urls e True True lines)
          | Some x \<Rightarrow> evs = [] \<and> get_output_dir e (prompts s) = Inl x)
     \<and> FAILED_DOWNLOADS s' = FAILED_DOWNLOADS s @ concat (map event_failures evs)
     \<and> (\<forall>i<length evs. empty_playlist e (get_urls e True True lines ! i)
           \<longrightarrow> empty_playlist_event e (evs ! i) \<and> event_failures (evs ! i) = [])
     \<and> (list_all (empty_playlist e) (get_urls e True True lines)
           \<longrightarrow> FAILED_DOWNLOADS s' = FAILED_DOWNLOADS s)"
proof -
  let ?urls = "get_urls e True True lines"
  from assms have pm: "playlist_mode video_with_audio_update ''Playlist Video with Audio'' e lines s = (err, evs, s')"
    by (simp add: download_video_with_audio_playlist_def)
  note ev = playlist_mode_events [OF pm]
  have len: "length evs \<le> length ?urls"
    using ev by (cases err) simp_all
  have "FAILED_DOWNLOADS s' = FAILED_DOWNLOADS s" if all: "list_all (empty_playlist e) ?urls"
  proof -
    have "\<forall>i<length (map event_failures evs). map event_failures evs ! i = []"
      using ev all len by (auto simp: list_all_length)
    then have "concat (map event_failures evs) = []" by (rule concat_all_empty)
    with ev show ?thesis by simp
  qed
  with ev show ?thesis by blast
qed

theorem empty_playlist_yields_nothing_witness:
  "download_video_with_audio_playlist demo_env [''https://www.youtube.com/playlist?list=PL1''] initial_state
     = (None,
        fst (snd (download_video_with_audio_playlist demo_env
          [''https://www.youtube.com/playlist?list=PL1''] initial_state)),
        initial_state\<lparr> prompts := 1 \<rparr>)
   \<and> get_urls demo_env True True [''https://www.youtube.com/playlist?list=PL1'']
     = [''https://www.youtube.com/playlist?list=PL1'']
   \<and> empty_playlist demo_env ''https://www.youtube.com/playlist?list=PL1''
   \<and> length (fst (snd (download_video_with_audio_playlist demo_env
         [''https://www.youtube.com/playlist?list=PL1''] initial_state))) = 1
   \<and> empty_playlist_event demo_env (fst (snd (download_video_with_audio_playlist demo_env
         [''https://www.youtube.com/playlist?list=PL1''] initial_state)) ! 0)
   \<and> event_failures (fst (snd (download_video_with_audio_playlist demo_env
         [''https://www.youtube.com/playlist?list=PL1''] initial_state)) ! 0) = []
   \<and> FAILED_DOWNLOADS (snd (snd (download_video_with_audio_playlist demo_env
         [''https://www.youtube.com/playlist?list=PL1''] initial_state)))
       = FAILED_DOWNLOADS initial_state"
  using empty_playlist_yields_nothing [of demo_env "[''https://www.youtube.com/playlist?list=PL1'']"
      initial_state None
      "fst (snd (download_video_with_audio_playlist demo_env [''https://www.youtube.com/playlist?list=PL1''] initial_state))"
      "snd (snd (download_video_with_audio_playlist demo_env [''https://www.youtube.com/playlist?list=PL1''] initial_state))"]
  by (simp add: demo_playlist_run empty_playlist_event_def event_failures_def)
     (simp add: demo_env_def empty_playlist_def get_urls_def is_valid_url_def is_word_def
        str_strip_def is_space_def initial_state_def)

subsection \<open>The concurrency limit\<close>

lemma decimal_is_digit: "is_decimal c \<Longrightarrow> is_digit c"
  by (simp add: is_decimal_def is_digit_def Let_def)

lemma decimals_are_digits: "list_all is_decimal v \<Longrightarrow> list_all is_digit v"
  by (induction v) (simp_all add: decimal_is_digit)

lemma readable_isdigit: "int_readable e v \<Longrightarrow> str_isdigit v"
  by (simp add: int_readable_def str_isdigit_def decimals_are_digits)

lemma py_int_readable: "py_int e v = (if int_readable e v then Inr (digit_value v) else Inl (ValueError (int_error_text e v)))"
  by (simp add: py_int_def int_readable_def within_digit_limit_def)

lemma settings_readable:
  assumes "int_readable e (str_strip line)" and "1 \<le> digit_value (str_strip line)"
  shows "download_thread_settings e (Some line) s = (None, s\<lparr> MAX_WORKERS := digit_value (str_strip line) \<rparr>)"
  using assms readable_isdigit [OF assms(1)]
  by (simp add: download_thread_settings_def Let_def py_int_readable)

lemma settings_other:
  assumes "\<not> (int_readable e (str_strip line) \<and> 1 \<le> digit_value (str_strip line))"
  shows "snd (download_thread_settings e (Some line) s) = s"
  using assms
  by (auto simp: download_thread_settings_def Let_def py_int_readable)

lemma settings_error:
  "fst (download_thread_settings e (Some line) s) =
     (if str_isdigit (str_strip line) \<and> \<not> int_readable e (str_strip line)
      then Some (ValueError (int_error_text e (str_strip line))) else None)"
  by (auto simp: download_thread_settings_def Let_def py_int_readable)

lemma settings_frame:
  "FAILED_DOWNLOADS (snd (download_thread_settings e inp s)) = FAILED_DOWNLOADS s"
  by (auto simp: download_thread_settings_def Let_def split: option.splits sum.splits)

lemma settings_keeps_limit:
  "1 \<le> MAX_WORKERS s \<Longrightarrow> 1 \<le> MAX_WORKERS (snd (download_thread_settings e inp s))"
  by (auto simp: download_thread_settings_def Let_def split: option.splits sum.splits)

lemma settings_fold_limit:
  "1 \<le> MAX_WORKERS s \<Longrightarrow>
     1 \<le> MAX_WORKERS (foldl (\<lambda>s inp. snd (download_thread_settings e inp s)) s inps)"
  by (induction inps arbitrary: s) (simp_all add: settings_keeps_limit)

text \<open>A long string of nines: a digit string, whose value is at least 9.\<close>

lemma list_all_replicate: "list_all P (replicate n x) \<longleftrightarrow> n = 0 \<or> P x"
  by (induction n) auto

lemma digit_value_snoc: "digit_value (s @ [c]) = 10 * digit_value s + (int (of_char c) - 48)"
  by (simp add: digit_value_def)

lemma digit_value_nines: "0 < n \<Longrightarrow> 9 \<le> digit_value (replicate n (CHR ''9''))"
proof (induction n)
  case 0
  then show ?case by simp
next
  case (Suc n)
  have "replicate (Suc n) (CHR ''9'') = replicate n (CHR ''9'') @ [CHR ''9'']"
    by (simp add: replicate_append_same)
  then have v: "digit_value (replicate (Suc n) (CHR ''9'')) = 10 * digit_value (replicate n (CHR ''9'')) + 9"
    by (simp only: digit_value_snoc) simp
  show ?case
  proof (cases n)
    case 0
    then show ?thesis by (simp add: digit_value_def)
  next
    case (Suc m)
    with Suc.IH have "9 \<le> digit_value (replicate n (CHR ''9''))" by simp
    with v show ?thesis by simp
  qed
qed

lemma strip_nines: "0 < n \<Longrightarrow> str_strip (replicate n (CHR ''9'')) = replicate n (CHR ''9'')"
  by (simp add: str_strip_def is_space_def)

text \<open>
  A digit string that denotes an integer of at least 1 and does not replace the limit:
  4301 nines, in the example environment, whose limit on the digits of an integer is the
  interpreter's default of 4300. \<^verbatim>\<open>int()\<close> raises \<^verbatim>\<open>ValueError\<close>, which the function does not
  catch, and the limit stays 5.
\<close>

theorem thread_settings_limit_counterexample:
  "str_isdigit (str_strip (replicate 4301 (CHR ''9'')))
   \<and> list_all is_decimal (str_strip (replicate 4301 (CHR ''9'')))
   \<and> 9 \<le> digit_value (str_strip (replicate 4301 (CHR ''9'')))
   \<and> max_str_digits demo_env = 4300
   \<and> MAX_WORKERS initial_state = 5
   \<and> download_thread_settings demo_env (Some (replicate 4301 (CHR ''9''))) initial_state
       = (Some (ValueError ''Exceeds the limit for integer string conversion''), initial_state)"
proof -
  have s: "str_strip (replicate 4301 (CHR ''9'')) = replicate 4301 (CHR ''9'')"
    by (rule strip_nines) simp
  have d: "list_all is_decimal (replicate 4301 (CHR ''9''))"
    by (simp add: list_all_replicate is_decimal_def)
  then have g: "str_isdigit (replicate 4301 (CHR ''9''))"
    by (simp add: str_isdigit_def list_all_replicate is_digit_def)
  have v: "9 \<le> digit_value (replicate 4301 (CHR ''9''))"
    by (rule digit_value_nines) simp
  have m: "max_str_digits demo_env = 4300" "int_error_text demo_env (replicate 4301 (CHR ''9''))
      = ''Exceeds the limit for integer string conversion''"
    using d by (simp_all add: demo_env_def)
  have "py_int demo_env (replicate 4301 (CHR ''9''))
      = Inl (ValueError ''Exceeds the limit for integer string conversion'')"
    using m by (simp add: py_int_def)
  then have "download_thread_settings demo_env (Some (replicate 4301 (CHR ''9''))) initial_state
       = (Some (ValueError ''Exceeds the limit for integer string conversion''), initial_state)"
    using g by (simp add: download_thread_settings_def Let_def s)
  with s d g v m show ?thesis by (simp add: initial_state_def)
qed

text \<open>
  C8. The limit is 5 in the initial state. A call of \<^verbatim>\<open>download_thread_settings\<close> with a
  typed line sets the limit to the integer that the stripped line denotes when the
  stripped line is a string that \<^verbatim>\<open>int()\<close> reads (decimal digits, at least one, within the
  interpreter's limit on their number) and the integer is at least 1; for every other
  line, and for a closed input, the state is as before the call. The call raises
  \<^verbatim>\<open>ValueError\<close> exactly when \<^verbatim>\<open>isdigit()\<close> accepts the stripped line and \<^verbatim>\<open>int()\<close> does not
  read it. So a limit of at least 1 stays at least 1, and after any sequence of calls
  from the initial state it is at least 1.
\<close>

theorem thread_settings_limit:
  "MAX_WORKERS initial_state = 5
   \<and> (int_readable e (str_strip line) \<and> 1 \<le> digit_value (str_strip line)
      \<longrightarrow> download_thread_settings e (Some line) s
          = (None, s\<lparr> MAX_WORKERS := digit_value (str_strip line) \<rparr>))
   \<and> (\<not> (int_readable e (str_strip line) \<and> 1 \<le> digit_value (str_strip line))
      \<longrightarrow> snd (download_thread_settings e (Some line) s) = s)
   \<and> fst (download_thread_settings e (Some line) s) =
       (if str_isdigit (str_strip line) \<and> \<not> int_readable e (str_strip line)
        then Some (ValueError (int_error_text e (str_strip line))) else None)
   \<and> download_thread_settings e None s = (None, s)
   \<and> (1 \<le> MAX_WORKERS s \<longrightarrow> 1 \<le> MAX_WORKERS (snd (download_thread_settings e inp s)))
   \<and> 1 \<le> MAX_WORKERS (foldl (\<lambda>s inp. snd (download_thread_settings e inp s)) initial_state inps)"
proof -
  have "1 \<le> MAX_WORKERS initial_state" by (simp add: initial_state_def)
  then have "1 \<le> MAX_WORKERS (foldl (\<lambda>s inp. snd (download_thread_settings e inp s)) initial_state inps)"
    by (rule settings_fold_limit)
  moreover have "MAX_WORKERS initial_state = 5" by (simp add: initial_state_def)
  moreover have "download_thread_settings e None s = (None, s)"
    by (simp add: download_thread_settings_def)
  ultimately show ?thesis
    using settings_readable [of e line s] settings_other [of e line s] settings_error [of e line s]
      settings_keeps_limit [of s e inp]
    by (intro conjI impI) simp_all
qed

theorem thread_settings_limit_witness:
  "MAX_WORKERS initial_state = 5
   \<and> int_readable demo_env (str_strip '' 12 '') \<and> 1 \<le> digit_value (str_strip '' 12 '')
   \<and> download_thread_settings demo_env (Some '' 12 '') initial_state
       = (None, initial_state\<lparr> MAX_WORKERS := 12 \<rparr>)
   \<and> download_thread_settings demo_env (Some (''12'' @ [CHR 0xA0])) initial_state
       = (None, initial_state\<lparr> MAX_WORKERS := 12 \<rparr>)
   \<and> \<not> (int_readable demo_env (str_strip ''0'') \<and> 1 \<le> digit_value (str_strip ''0''))
   \<and> download_thread_settings demo_env (Some ''0'') initial_state = (None, initial_state)
   \<and> download_thread_settings demo_env (Some ''-3'') initial_state = (None, initial_state)
   \<and> download_thread_settings demo_env (Some ''1e3'') initial_state = (None, initial_state)
   \<and> download_thread_settings demo_env (Some [CHR 0xB2]) initial_state
       = (Some (ValueError ''invalid literal for int() with base 10''), initial_state)
   \<and> download_thread_settings demo_env None initial_state = (None, initial_state)
   \<and> 1 \<le> MAX_WORKERS initial_state
   \<and> 1 \<le> MAX_WORKERS (snd (download_thread_settings demo_env (Some ''0'') initial_state))
   \<and> 1 \<le> MAX_WORKERS (foldl (\<lambda>s inp. snd (download_thread_settings demo_env inp s)) initial_state
            [Some ''0'', Some ''7'', None, Some ''x''])"
  using thread_settings_limit [of demo_env "'' 12 ''" initial_state "Some ''0''" "[Some ''0'', Some ''7'', None, Some ''x'']"]
    thread_settings_limit [of demo_env "''0''" initial_state "Some ''0''" "[]"]
  by (simp add: download_thread_settings_def py_int_def int_readable_def within_digit_limit_def
      str_strip_def is_space_def str_isdigit_def is_digit_def is_decimal_def digit_value_def
      initial_state_def demo_env_def)

subsection \<open>Which URLs the single-item modes refuse\<close>

text \<open>The substring test of the model is the usual notion of substring.\<close>

lemma str_in_iff: "str_in sub s \<longleftrightarrow> (\<exists>p q. s = p @ sub @ q)"
proof (induction s)
  case Nil
  then show ?case by auto
next
  case (Cons c cs)
  show ?case
  proof
    assume "str_in sub (c # cs)"
    then consider "starts_with sub (c # cs)" | "str_in sub cs" by auto
    then show "\<exists>p q. c # cs = p @ sub @ q"
    proof cases
      case 1
      then obtain q where "c # cs = sub @ q" by (auto simp: starts_with_iff)
      then have "c # cs = [] @ sub @ q" by simp
      then show ?thesis by blast
    next
      case 2
      with Cons obtain p q where "cs = p @ sub @ q" by blast
      then have "c # cs = (c # p) @ sub @ q" by simp
      then show ?thesis by blast
    qed
  next
    assume "\<exists>p q. c # cs = p @ sub @ q"
    then obtain p q where pq: "c # cs = p @ sub @ q" by blast
    show "str_in sub (c # cs)"
    proof (cases p)
      case Nil
      with pq have "starts_with sub (c # cs)" by (auto simp: starts_with_iff)
      then show ?thesis by simp
    next
      case (Cons a p')
      with pq have "cs = p' @ sub @ q" by simp
      with Cons.IH have "str_in sub cs" by blast
      then show ?thesis by simp
    qed
  qed
qed

lemma get_urls_loop_eq:
  "get_urls_loop e ep lines urls =
     urls @ filter (\<lambda>url. is_valid_url url \<and> \<not> (\<not> ep \<and> is_pure_playlist_url e url))
              (takeWhile (\<lambda>url. url \<noteq> []) (map str_strip lines))"
  by (induction lines arbitrary: urls) (auto simp: Let_def)

lemma get_urls_eq:
  "get_urls e multiple ep lines =
     filter (\<lambda>url. is_valid_url url \<and> \<not> (\<not> ep \<and> is_pure_playlist_url e url)) (typed_urls lines)"
  by (simp add: get_urls_def get_urls_loop_eq typed_urls_def)

text \<open>An example of \<^verbatim>\<open>get_urls\<close> in a single-item mode, evaluated.\<close>

lemma get_urls_example:
  "get_urls demo_env True False
     [''  https://vimeo.com/showcase/1?list=PL1'', ''not-a-url'',
      ''https://www.youtube.com/playlist?list=PL1 '', ''https://example.com/a'', [], ''https://example.com/c'']
   = [''https://vimeo.com/showcase/1?list=PL1'', ''https://example.com/a'']"
  by (simp add: get_urls_def is_valid_url_def is_word_def is_pure_playlist_url_def demo_env_def
      str_lower_def lower_char_def str_strip_def is_space_def)

text \<open>
  Two URLs of which the test on the host and on the parameters of the query string says
  one thing and the function another, in the example environment, which has what
  \<^verbatim>\<open>urllib.parse\<close> gives for them. The host of
  \<^verbatim>\<open>https://youtube.com@vimeo.com/showcase/1?list=PL1\<close> is \<^verbatim>\<open>vimeo.com\<close>, but its \<^verbatim>\<open>netloc\<close>,
  which has the user information too, contains \<^verbatim>\<open>youtube.com\<close>: the function answers yes
  and a single-item mode refuses the URL. The query string of
  \<^verbatim>\<open>https://www.youtube.com/playlist?list=\<close> has a parameter \<^verbatim>\<open>list\<close> and no parameter
  \<^verbatim>\<open>v\<close>, but \<^verbatim>\<open>parse_qs\<close> leaves out a parameter with a blank value: the function answers no.
  For the same reason it answers yes for \<^verbatim>\<open>https://www.youtube.com/watch?v=&list=PL1\<close>,
  whose query string has a parameter \<^verbatim>\<open>v\<close>.
\<close>

theorem pure_playlist_only_youtube_counterexample:
  "urlparse demo_env ''https://youtube.com@vimeo.com/showcase/1?list=PL1''
     = Some \<lparr> netloc = ''youtube.com@vimeo.com'', query = ''list=PL1'', hostname = Some ''vimeo.com'' \<rparr>
   \<and> \<not> youtube_host (str_lower ''vimeo.com'')
   \<and> is_pure_playlist_url demo_env ''https://youtube.com@vimeo.com/showcase/1?list=PL1''
   \<and> is_valid_url ''https://youtube.com@vimeo.com/showcase/1?list=PL1''
   \<and> get_urls demo_env True False [''https://youtube.com@vimeo.com/showcase/1?list=PL1''] = []
   \<and> urlparse demo_env ''https://www.youtube.com/playlist?list=''
     = Some \<lparr> netloc = ''www.youtube.com'', query = ''list='', hostname = Some ''www.youtube.com'' \<rparr>
   \<and> youtube_host (str_lower ''www.youtube.com'')
   \<and> query_has_param ''list'' ''list='' \<and> \<not> query_has_param ''v'' ''list=''
   \<and> \<not> is_pure_playlist_url demo_env ''https://www.youtube.com/playlist?list=''
   \<and> urlparse demo_env ''https://www.youtube.com/watch?v=&list=PL1''
     = Some \<lparr> netloc = ''www.youtube.com'', query = ''v=&list=PL1'', hostname = Some ''www.youtube.com'' \<rparr>
   \<and> query_has_param ''list'' ''v=&list=PL1'' \<and> query_has_param ''v'' ''v=&list=PL1''
   \<and> is_pure_playlist_url demo_env ''https://www.youtube.com/watch?v=&list=PL1''"
  by (simp add: demo_env_def youtube_host_def str_lower_def lower_char_def query_has_param_def
      is_pure_playlist_url_def is_valid_url_def is_word_def get_urls_def str_strip_def is_space_def)

text \<open>
  C9. \<^verbatim>\<open>is_pure_playlist_url\<close> answers no for a URL that \<^verbatim>\<open>urlparse\<close> rejects and for a
  URL whose lower-cased \<^verbatim>\<open>netloc\<close> contains neither \<^verbatim>\<open>youtube.com\<close> nor \<^verbatim>\<open>youtu.be\<close>. For a
  URL whose \<^verbatim>\<open>netloc\<close> contains one of them it answers yes exactly when \<^verbatim>\<open>parse_qs\<close> of the
  query has the key \<^verbatim>\<open>list\<close> and not the key \<^verbatim>\<open>v\<close>. Hence \<^verbatim>\<open>get_urls\<close> in a single-item
  mode keeps every typed URL that is valid and has no such \<^verbatim>\<open>netloc\<close>, and refuses every
  URL with such a \<^verbatim>\<open>netloc\<close> and those keys.
\<close>

theorem pure_playlist_only_youtube:
  "(urlparse e url = None \<longrightarrow> \<not> is_pure_playlist_url e url)
   \<and> (\<forall>p. urlparse e url = Some p \<and> \<not> youtube_host (str_lower (netloc p))
          \<longrightarrow> \<not> is_pure_playlist_url e url)
   \<and> (\<forall>p. urlparse e url = Some p \<and> youtube_host (str_lower (netloc p))
          \<longrightarrow> is_pure_playlist_url e url
              = (''list'' \<in> dom (parse_qs e (query p)) \<and> ''v'' \<notin> dom (parse_qs e (query p))))
   \<and> (\<forall>u \<in> set (typed_urls lines).
         is_valid_url u \<and> (\<forall>p. urlparse e u = Some p \<longrightarrow> \<not> youtube_host (str_lower (netloc p)))
          \<longrightarrow> u \<in> set (get_urls e multiple False lines))
   \<and> (\<forall>u p. urlparse e u = Some p \<and> youtube_host (str_lower (netloc p))
          \<and> ''list'' \<in> dom (parse_qs e (query p)) \<and> ''v'' \<notin> dom (parse_qs e (query p))
          \<longrightarrow> u \<notin> set (get_urls e multiple False lines))"
proof -
  have a: "\<not> is_pure_playlist_url e u" if "\<forall>p. urlparse e u = Some p \<longrightarrow> \<not> youtube_host (str_lower (netloc p))" for u
    using that by (auto simp: is_pure_playlist_url_def youtube_host_def Let_def split: option.splits)
  have b: "is_pure_playlist_url e u
              = (''list'' \<in> dom (parse_qs e (query p)) \<and> ''v'' \<notin> dom (parse_qs e (query p)))"
    if "urlparse e u = Some p" "youtube_host (str_lower (netloc p))" for u p
    using that by (auto simp: is_pure_playlist_url_def youtube_host_def Let_def)
  have c: "u \<notin> set (get_urls e multiple False lines)"
    if "urlparse e u = Some p" "youtube_host (str_lower (netloc p))"
      "''list'' \<in> dom (parse_qs e (query p))" "''v'' \<notin> dom (parse_qs e (query p))" for u p
    using b [OF that(1,2)] that(3,4) by (simp add: get_urls_eq)
  show ?thesis
    using a b c by (auto simp: get_urls_eq)
qed

theorem pure_playlist_only_youtube_witness:
  "urlparse demo_env ''https://vimeo.com/showcase/1?list=PL1''
     = Some \<lparr> netloc = ''vimeo.com'', query = ''list=PL1'', hostname = Some ''vimeo.com'' \<rparr>
   \<and> \<not> youtube_host (str_lower ''vimeo.com'')
   \<and> \<not> is_pure_playlist_url demo_env ''https://vimeo.com/showcase/1?list=PL1''
   \<and> urlparse demo_env ''https://www.YouTube.com/playlist?list=PL1''
     = Some \<lparr> netloc = ''www.YouTube.com'', query = ''list=PL1'', hostname = Some ''www.youtube.com'' \<rparr>
   \<and> youtube_host (str_lower ''www.YouTube.com'')
   \<and> ''list'' \<in> dom (parse_qs demo_env ''list=PL1'') \<and> ''v'' \<notin> dom (parse_qs demo_env ''list=PL1'')
   \<and> is_pure_playlist_url demo_env ''https://www.YouTube.com/playlist?list=PL1''
   \<and> urlparse demo_env ''http://[::1'' = None
   \<and> \<not> is_pure_playlist_url demo_env ''http://[::1''
   \<and> typed_urls [''https://www.YouTube.com/playlist?list=PL1'', ''https://vimeo.com/showcase/1?list=PL1'']
       = [''https://www.YouTube.com/playlist?list=PL1'', ''https://vimeo.com/showcase/1?list=PL1'']
   \<and> is_valid_url ''https://vimeo.com/showcase/1?list=PL1''
   \<and> get_urls demo_env True False
         [''https://www.YouTube.com/playlist?list=PL1'', ''https://vimeo.com/showcase/1?list=PL1'']
       = [''https://vimeo.com/showcase/1?list=PL1'']"
  using pure_playlist_only_youtube [of demo_env "''https://vimeo.com/showcase/1?list=PL1''"
      "[''https://www.YouTube.com/playlist?list=PL1'', ''https://vimeo.com/showcase/1?list=PL1'']" True]
    pure_playlist_only_youtube [of demo_env "''https://www.YouTube.com/playlist?list=PL1''" "[]" True]
    pure_playlist_only_youtube [of demo_env "''http://[::1''" "[]" True]
  by (simp add: demo_env_def youtube_host_def str_lower_def lower_char_def typed_urls_def
      str_strip_def is_space_def is_valid_url_def is_word_def get_urls_def is_pure_playlist_url_def)

subsection \<open>Retrying\<close>

text \<open>
  What a batch reports is what its downloads did: a finished \<^verbatim>\<open>run_download\<close> gives a
  batch that \<open>ran\<close>.
\<close>

lemma failed_keys:
  "map (\<lambda>r. (f_url r, f_desc r)) (List.map_filter (job_result e k opts urls desc) is)
     = map (\<lambda>i. (urls ! i, desc))
         (filter (\<lambda>i. fetch e (k + i) (worker_opts opts urls) (urls ! i) \<noteq> Completed) is)"
proof (induction "is")
  case Nil
  then show ?case by (simp add: map_filter_simps)
next
  case (Cons i "is")
  then show ?case
    by (cases "fetch e (k + i) (worker_opts opts urls) (urls ! i)")
       (simp_all add: map_filter_simps job_result_def download_single_def f_url_def f_desc_def)
qed

lemma run_download_ok:
  assumes "length urls \<le> 1 \<or> 1 \<le> MAX_WORKERS s"
  shows "\<exists>out s'. run_download e opts urls desc s = Inr (out, s')
     \<and> ran e \<lparr> b_opts = opts, b_urls = urls, b_desc = desc, b_registry = FAILED_DOWNLOADS s,
                 b_first = fetches s, b_outcome = out \<rparr>
     \<and> FAILED_DOWNLOADS s' = FAILED_DOWNLOADS s @ failed out
     \<and> MAX_WORKERS s' = MAX_WORKERS s
     \<and> fetches s' = fetches s + length urls
     \<and> prompts s' = prompts s"
  by (simp add: run_download_char [OF assms] ran_def succeeded_urls failed_keys)

text \<open>
  \<^verbatim>\<open>_retry_downloads\<close> asks for the directory and then runs one batch with options that
  depend on the label only. When the prompt raises, nothing is run.
\<close>

lemma retry_downloads_raise:
  assumes "get_output_dir e (prompts s) = Inl err"
  shows "retry_downloads e urls mode s = Inl (err, s\<lparr> prompts := prompts s + 1 \<rparr>)"
  using assms by (simp add: retry_downloads_def)

lemma retry_downloads_unfold:
  assumes "get_output_dir e (prompts s) = Inr dir"
  shows "\<exists>opts. retry_downloads e urls mode s =
     (case run_download e opts urls mode (s\<lparr> prompts := prompts s + 1 \<rparr>) of
        Inl err \<Rightarrow> Inl (err, s\<lparr> prompts := prompts s + 1 \<rparr>)
      | Inr (out, s') \<Rightarrow>
          Inr (\<lparr> b_opts = opts, b_urls = urls, b_desc = mode,
                 b_registry = FAILED_DOWNLOADS (s\<lparr> prompts := prompts s + 1 \<rparr>),
                 b_first = fetches (s\<lparr> prompts := prompts s + 1 \<rparr>),
                 b_outcome = out \<rparr>, s'))"
  unfolding retry_downloads_def run_download_with_log_def Let_def assms sum.case
  by (rule exI) (rule refl)




lemma served_le: "served e n m \<le> m"
  unfolding served_def using length_takeWhile_le [of "prompt_ok e" "[n..<n + m]"] by simp





lemma closed_prompt: "get_output_dir closed_input_env n = Inl EOFError"
  by (simp add: get_output_dir_def closed_input_env_def demo_env_def Let_def)


subsection \<open>Retry all\<close>









text \<open>
  The scenario of the specification: two records labelled \<^verbatim>\<open>Audio\<close> and one labelled
  \<^verbatim>\<open>Video without Audio\<close> give two batches, of two URLs and of one, and the first batch
  finds an empty registry.
\<close>

lemma retry_all_example:
  "\<exists>b1 b2 s'. resume_failed_downloads demo_env (Some '' A '') demo_state = (None, [b1, b2], s')
     \<and> b_desc b1 = ''Audio'' \<and> b_urls b1 = [''https://example.com/a'', ''https://example.com/b'']
     \<and> b_registry b1 = []
     \<and> succeeded (b_outcome b1) = [''https://example.com/a'']
     \<and> failed (b_outcome b1) = [(''https://example.com/b'', ''Audio'', ''ERROR: unavailable'')]
     \<and> b_desc b2 = ''Video without Audio'' \<and> b_urls b2 = [''https://example.com/v'']
     \<and> b_registry b2 = [(''https://example.com/b'', ''Audio'', ''ERROR: unavailable'')]
     \<and> succeeded (b_outcome b2) = []
     \<and> failed (b_outcome b2)
          = [(''https://example.com/v'', ''Video without Audio'', ''ERROR: unavailable'')]
     \<and> FAILED_DOWNLOADS s' =
          [(''https://example.com/b'', ''Audio'', ''ERROR: unavailable''),
           (''https://example.com/v'', ''Video without Audio'', ''ERROR: unavailable'')]"
  by (simp add: resume_failed_downloads_def demo_state_def demo_registry_def initial_state_def
      str_strip_def is_space_def str_lower_def lower_char_def retry_downloads_def
      run_download_with_log_def run_download_def submit_all_def download_single_def
      get_output_dir_def get_default_downloads_dir_def
      demo_env_def first_line_def upt_rec Let_def)

text \<open>
  The same answer when the input is closed: the first directory prompt raises
  \<^verbatim>\<open>EOFError\<close> after the registry was emptied, and no batch is issued.
\<close>

lemma retry_all_input_closed:
  "resume_failed_downloads closed_input_env (Some ''a'') demo_state
     = (Some EOFError, [], demo_state\<lparr> FAILED_DOWNLOADS := [], prompts := 1 \<rparr>)"
  by (simp add: resume_failed_downloads_def demo_state_def demo_registry_def initial_state_def
      str_strip_def is_space_def str_lower_def lower_char_def retry_downloads_def
      get_output_dir_def get_default_downloads_dir_def closed_input_env_def
      demo_env_def Let_def)



subsection \<open>Retry selected\<close>
















text \<open>
  The scenario of the specification: the choice \<^verbatim>\<open>2,1\<close> on three records removes the
  first two, leaves the third, and retries the first and then the second.
\<close>

lemma retry_selected_example:
  "\<exists>b1 b2 s'. resume_failed_downloads demo_env (Some ''2,1'') demo_state = (None, [b1, b2], s')
     \<and> b_urls b1 = [''https://example.com/a''] \<and> b_desc b1 = ''Audio''
     \<and> b_registry b1 = [(''https://example.com/b'', ''Audio'', ''ERROR: timed out'')]
     \<and> succeeded (b_outcome b1) = [''https://example.com/a''] \<and> failed (b_outcome b1) = []
     \<and> b_urls b2 = [''https://example.com/v''] \<and> b_desc b2 = ''Video without Audio''
     \<and> b_registry b2 = [(''https://example.com/b'', ''Audio'', ''ERROR: timed out'')]
     \<and> succeeded (b_outcome b2) = []
     \<and> failed (b_outcome b2)
          = [(''https://example.com/v'', ''Video without Audio'', ''ERROR: unavailable'')]
     \<and> FAILED_DOWNLOADS s' =
          [(''https://example.com/b'', ''Audio'', ''ERROR: timed out''),
           (''https://example.com/v'', ''Video without Audio'', ''ERROR: unavailable'')]"
  by (simp add: resume_failed_downloads_def demo_state_def demo_registry_def initial_state_def
      str_strip_def is_space_def str_lower_def lower_char_def parse_idxs_def str_isdigit_def
      is_digit_def is_decimal_def py_int_def digit_value_def pop_at_def retry_downloads_def
      get_output_dir_def get_default_downloads_dir_def run_download_with_log_def run_download_def download_single_def
      demo_env_def first_line_def Let_def)

text \<open>
  A piece that \<^verbatim>\<open>isdigit()\<close> accepts and \<^verbatim>\<open>int()\<close> refuses, here a superscript two: the
  \<^verbatim>\<open>ValueError\<close> leaves the function, and no record is removed or retried.
\<close>

lemma retry_selected_refused_piece:
  "str_isdigit [CHR 0xB2]
   \<and> resume_failed_downloads demo_env (Some (''1,'' @ [CHR 0xB2])) demo_state
       = (Some (ValueError ''invalid literal for int() with base 10''), [], demo_state)"
  by (simp add: resume_failed_downloads_def demo_state_def demo_registry_def initial_state_def
      str_strip_def is_space_def str_lower_def lower_char_def parse_idxs_def str_isdigit_def
      is_digit_def is_decimal_def py_int_def digit_value_def demo_env_def Let_def)

text \<open>
  Which pieces of a choice become indices: when \<^verbatim>\<open>int()\<close> reads every piece that
  \<^verbatim>\<open>isdigit()\<close> accepts, \<^verbatim>\<open>idxs\<close> has one index for each such piece, in order, and the
  other pieces are left out.
\<close>

lemma read_idxs_readable:
  assumes "list_all (\<lambda>p. str_isdigit (str_strip p) \<longrightarrow> int_readable e (str_strip p)) pieces"
  shows "read_idxs e pieces =
     Inr (map (\<lambda>p. digit_value (str_strip p) - 1) (filter (\<lambda>p. str_isdigit (str_strip p)) pieces))"
  using assms by (induction pieces) (simp_all add: py_int_readable)

lemma parse_idxs_readable:
  assumes "list_all (\<lambda>p. str_isdigit (str_strip p) \<longrightarrow> int_readable e (str_strip p))
             (str_split (CHR '','') choice)"
  shows "parse_idxs e choice =
     Inr (map (\<lambda>p. digit_value (str_strip p) - 1)
            (filter (\<lambda>p. str_isdigit (str_strip p)) (str_split (CHR '','') choice)))"
  unfolding parse_idxs_def using assms by (rule read_idxs_readable)



text \<open>
  C3. Removal by the positions of the registry before the call, and retry in ascending
  order of those positions, is what a choice does that names each in-range index once
  (\<open>retry_selected_distinct\<close> above). A choice that repeats an index does otherwise: on the
  example registry the choice \<^verbatim>\<open>1,1\<close> names the first record only, yet two batches are
  issued. The second record is removed and retried as well, and before the first; only
  the third record is in the registry when the first batch starts.
\<close>

theorem retry_selected_repeated_index:
  "\<exists>b1 b2 s'. resume_failed_downloads demo_env (Some ''1,1'') demo_state = (None, [b1, b2], s')
     \<and> b_urls b1 = [''https://example.com/v''] \<and> b_desc b1 = ''Video without Audio''
     \<and> b_registry b1 = [(''https://example.com/b'', ''Audio'', ''ERROR: timed out'')]
     \<and> b_urls b2 = [''https://example.com/a''] \<and> b_desc b2 = ''Audio''"
  by (simp add: resume_failed_downloads_def demo_state_def demo_registry_def initial_state_def
      str_strip_def is_space_def str_lower_def lower_char_def parse_idxs_def str_isdigit_def
      is_digit_def is_decimal_def py_int_def digit_value_def pop_at_def retry_downloads_def
      get_output_dir_def get_default_downloads_dir_def
      run_download_with_log_def run_download_def download_single_def
      demo_env_def first_line_def Let_def)

subsection \<open>The options of a retry\<close>

text \<open>
  Every label that contains \<^verbatim>\<open>Video without Audio\<close> contains \<^verbatim>\<open>Audio\<close>, which the chain
  of tests in \<^verbatim>\<open>_retry_downloads\<close> looks for first: its third branch is never taken, and
  no retry asks for the format \<^verbatim>\<open>bestvideo\<close>.
\<close>

lemma video_without_audio_has_audio:
  "str_in ''Video without Audio'' mode \<Longrightarrow> str_in ''Audio'' mode"
proof -
  assume "str_in ''Video without Audio'' mode"
  then obtain p q where "mode = p @ ''Video without Audio'' @ q"
    by (auto simp: str_in_iff)
  then have "mode = (p @ ''Video without '') @ ''Audio'' @ q" by simp
  then show ?thesis unfolding str_in_iff by blast
qed

lemma retry_never_best_video:
  assumes "retry_downloads e urls mode s = Inr (b, s')"
  shows "format (b_opts b) \<noteq> Some ''bestvideo''"
proof -
  have a: "str_in ''Audio'' mode" if "str_in ''Video without Audio'' mode"
    using that by (rule video_without_audio_has_audio)
  show ?thesis
    using assms a
    by (auto simp: retry_downloads_def Let_def video_with_audio_update_def audio_update_def
        video_only_update_def base_ydl_opts_def split: sum.splits if_splits)
qed

text \<open>The format that a retry asks for, for every label.\<close>

lemma retry_format:
  assumes "retry_downloads e urls mode s = Inr (b, s')"
  shows "format (b_opts b) =
     (if str_in ''Video with Audio'' mode then Some ''bestvideo+bestaudio''
      else if str_in ''Audio'' mode then Some ''bestaudio/best''
      else None)"
proof -
  have a: "str_in ''Audio'' mode" if "str_in ''Video without Audio'' mode"
    using that by (rule video_without_audio_has_audio)
  show ?thesis
    using assms a
    by (auto simp: retry_downloads_def Let_def video_with_audio_update_def audio_update_def
        video_only_update_def base_ydl_opts_def split: sum.splits if_splits)
qed

text \<open>
  C1. A record labelled \<^verbatim>\<open>Video without Audio\<close> is not retried with the options of its
  mode. On the example environment \<^verbatim>\<open>download_video_only_single\<close> runs its batch with
  the format \<^verbatim>\<open>bestvideo\<close> and the video convertor, and records the failed URL under the
  label \<^verbatim>\<open>Video without Audio\<close>; retrying that record (choice \<^verbatim>\<open>1\<close>) runs a batch with
  the format \<^verbatim>\<open>bestaudio/best\<close> and the audio extraction to MP3.
\<close>

theorem video_only_retried_as_audio:
  "\<exists>b1 s1 b2 s2.
     download_video_only_single demo_env [''https://example.com/v''] initial_state = (None, [b1], s1)
     \<and> format (b_opts b1) = Some ''bestvideo''
     \<and> postprocessors (b_opts b1) = Some [FFmpegVideoConvertor ''mp4'', FFmpegMetadata]
     \<and> FAILED_DOWNLOADS s1 = [(''https://example.com/v'', ''Video without Audio'', ''ERROR: unavailable'')]
     \<and> resume_failed_downloads demo_env (Some ''1'') s1 = (None, [b2], s2)
     \<and> b_urls b2 = [''https://example.com/v''] \<and> b_desc b2 = ''Video without Audio''
     \<and> format (b_opts b2) = Some ''bestaudio/best''
     \<and> postprocessors (b_opts b2) = Some [FFmpegExtractAudio ''mp3'' ''0'', FFmpegMetadata]"
  by (simp add: download_video_only_single_def download_mode_def get_urls_def is_valid_url_def
      is_word_def is_pure_playlist_url_def issue_def video_only_update_def audio_update_def
      video_with_audio_update_def base_ydl_opts_def
      resume_failed_downloads_def initial_state_def f_url_def f_desc_def
      str_strip_def is_space_def str_lower_def lower_char_def str_isdigit_def
      is_digit_def is_decimal_def py_int_def digit_value_def pop_at_def retry_downloads_def
      get_output_dir_def get_default_downloads_dir_def
      run_download_with_log_def run_download_def download_single_def
      demo_env_def first_line_def Let_def)

subsection \<open>The limit in every state of a session\<close>

text \<open>
  No operation but the thread settings writes \<^verbatim>\<open>MAX_WORKERS\<close>, whether it returns or
  raises. So the limit is at least 1 in every state of a session, and the executor never
  raises \<^verbatim>\<open>ValueError\<close> there: the only exceptions that leave an operation that runs
  batches are those of the directory prompt and of \<^verbatim>\<open>int()\<close>.
\<close>

lemma run_download_limit:
  "run_download e opts urls desc s = Inr (out, s') \<Longrightarrow> MAX_WORKERS s' = MAX_WORKERS s"
  by (auto simp: run_download_def Let_def split: if_splits prod.splits option.splits)

lemma issue_limit:
  "issue e opts urls desc s = Inr (b, s') \<Longrightarrow> MAX_WORKERS s' = MAX_WORKERS s"
  by (auto simp: issue_def split: sum.splits dest: run_download_limit)

lemma issue_ok:
  assumes "length urls \<le> 1 \<or> 1 \<le> MAX_WORKERS s"
  shows "\<exists>b s'. issue e opts urls desc s = Inr (b, s')"
  using run_download_ok [OF assms, of e opts desc] by (auto simp: issue_def)

lemma download_mode_limit:
  "download_mode update desc e lines s = (err, bs, s') \<Longrightarrow> MAX_WORKERS s' = MAX_WORKERS s"
  by (auto simp: download_mode_def Let_def split: if_splits sum.splits dest: issue_limit)

lemma download_mode_error:
  assumes "1 \<le> MAX_WORKERS s"
  shows "fst (download_mode update desc e lines s) =
     (if get_urls e True False lines = [] then None else prompt_error e (prompts s))"
proof (cases "get_urls e True False lines = []")
  case True
  then show ?thesis by (simp add: download_mode_def)
next
  case False
  let ?urls = "get_urls e True False lines"
  let ?s0 = "s\<lparr> prompts := prompts s + 1 \<rparr>"
  show ?thesis
  proof (cases "get_output_dir e (prompts s)")
    case (Inl x)
    with False show ?thesis by (simp add: download_mode_def prompt_error_def)
  next
    case (Inr dir)
    let ?opts = "update ((base_ydl_opts dir)\<lparr> noplaylist := Some True \<rparr>)"
    have "length ?urls \<le> 1 \<or> 1 \<le> MAX_WORKERS ?s0" using assms by simp
    from issue_ok [OF this, of e ?opts desc]
    obtain b s' where "issue e ?opts ?urls desc ?s0 = Inr (b, s')" by blast
    with False Inr have "download_mode update desc e lines s = (None, [b], s')"
      by (simp add: download_mode_def Let_def)
    with False Inr show ?thesis by (simp add: prompt_error_def)
  qed
qed

lemma process_playlist_limit:
  "process_playlist update desc e output_dir pl_url s = (ev, s') \<Longrightarrow> MAX_WORKERS s' = MAX_WORKERS s"
  by (auto simp: process_playlist_def Let_def split: sum.splits option.splits dest: issue_limit)

lemma process_playlists_limit:
  "process_playlists update desc e output_dir urls s = (evs, s') \<Longrightarrow> MAX_WORKERS s' = MAX_WORKERS s"
proof (induction urls arbitrary: s evs s')
  case Nil
  then show ?case by simp
next
  case (Cons u us)
  obtain ev s1 where one: "process_playlist update desc e output_dir u s = (ev, s1)"
    by (cases "process_playlist update desc e output_dir u s")
  obtain evs' s2 where many: "process_playlists update desc e output_dir us s1 = (evs', s2)"
    by (cases "process_playlists update desc e output_dir us s1")
  from Cons.prems one many have "s' = s2" by simp
  with Cons.IH [OF many] process_playlist_limit [OF one] show ?case by simp
qed

lemma playlist_mode_limit:
  "playlist_mode update desc e lines s = (err, evs, s') \<Longrightarrow> MAX_WORKERS s' = MAX_WORKERS s"
  by (auto simp: playlist_mode_def Let_def split: if_splits sum.splits prod.splits
      dest: process_playlists_limit)

lemma retry_downloads_limit:
  "(case retry_downloads e urls mode s of Inl (err, s') \<Rightarrow> MAX_WORKERS s' | Inr (b, s') \<Rightarrow> MAX_WORKERS s')
     = MAX_WORKERS s"
proof (cases "get_output_dir e (prompts s)")
  case (Inl x)
  then show ?thesis by (simp add: retry_downloads_raise)
next
  case (Inr dir)
  let ?s0 = "s\<lparr> prompts := prompts s + 1 \<rparr>"
  from retry_downloads_unfold [OF Inr, of urls mode]
  obtain opts where unf: "retry_downloads e urls mode s =
     (case run_download e opts urls mode ?s0 of
        Inl err \<Rightarrow> Inl (err, ?s0)
      | Inr (out, s') \<Rightarrow>
          Inr (\<lparr> b_opts = opts, b_urls = urls, b_desc = mode,
                 b_registry = FAILED_DOWNLOADS ?s0, b_first = fetches ?s0,
                 b_outcome = out \<rparr>, s'))"
    by blast
  show ?thesis
  proof (cases "run_download e opts urls mode ?s0")
    case (Inl x)
    then show ?thesis unfolding unf by simp
  next
    case (Inr r)
    obtain out s' where r: "r = (out, s')" by (cases r)
    from Inr r run_download_limit [of e opts urls mode ?s0 out s'] show ?thesis
      unfolding unf by simp
  qed
qed

lemma retry_groups_limit:
  "retry_groups e groups s = (err, bs, s') \<Longrightarrow> MAX_WORKERS s' = MAX_WORKERS s"
proof (induction groups arbitrary: s err bs s')
  case Nil
  then show ?case by simp
next
  case (Cons g gs)
  obtain desc urls where g: "g = (desc, urls)" by (cases g)
  show ?case
  proof (cases "retry_downloads e urls desc s")
    case (Inl r)
    obtain x s1 where r: "r = (x, s1)" by (cases r)
    from Inl r retry_downloads_limit [of e urls desc s] have "MAX_WORKERS s1 = MAX_WORKERS s"
      by simp
    moreover from Cons.prems g Inl r have "s' = s1" by simp
    ultimately show ?thesis by simp
  next
    case (Inr r)
    obtain b s1 where r: "r = (b, s1)" by (cases r)
    from Inr r retry_downloads_limit [of e urls desc s] have one: "MAX_WORKERS s1 = MAX_WORKERS s"
      by simp
    obtain err2 bs2 s2 where many: "retry_groups e gs s1 = (err2, bs2, s2)"
      by (cases "retry_groups e gs s1")
    from Cons.prems g Inr r many have "s' = s2" by simp
    with Cons.IH [OF many] one show ?thesis by simp
  qed
qed

lemma retry_each_limit:
  "retry_each e rs s = (err, bs, s') \<Longrightarrow> MAX_WORKERS s' = MAX_WORKERS s"
proof (induction rs arbitrary: s err bs s')
  case Nil
  then show ?case by simp
next
  case (Cons r0 rs)
  obtain url desc msg where r0: "r0 = (url, desc, msg)" by (cases r0)
  show ?case
  proof (cases "retry_downloads e [url] desc s")
    case (Inl r)
    obtain x s1 where r: "r = (x, s1)" by (cases r)
    from Inl r retry_downloads_limit [of e "[url]" desc s] have "MAX_WORKERS s1 = MAX_WORKERS s"
      by simp
    moreover from Cons.prems r0 Inl r have "s' = s1" by simp
    ultimately show ?thesis by simp
  next
    case (Inr r)
    obtain b s1 where r: "r = (b, s1)" by (cases r)
    from Inr r retry_downloads_limit [of e "[url]" desc s] have one: "MAX_WORKERS s1 = MAX_WORKERS s"
      by simp
    obtain err2 bs2 s2 where many: "retry_each e rs s1 = (err2, bs2, s2)"
      by (cases "retry_each e rs s1")
    from Cons.prems r0 Inr r many have "s' = s2" by simp
    with Cons.IH [OF many] one show ?thesis by simp
  qed
qed

lemma resume_limit:
  assumes "resume_failed_downloads e inp s = (err, bs, s')"
  shows "MAX_WORKERS s' = MAX_WORKERS s"
proof (cases "FAILED_DOWNLOADS s = [] \<or> inp = None")
  case True
  with assms show ?thesis by (auto simp: resume_failed_downloads_def split: if_splits)
next
  case False
  then obtain line where inp: "inp = Some line" and ne: "FAILED_DOWNLOADS s \<noteq> []" by auto
  let ?reg = "FAILED_DOWNLOADS s"
  let ?choice = "str_lower (str_strip line)"
  consider (cancel) "?choice = ''c''"
    | (all) "?choice \<noteq> ''c''" "?choice = ''a''"
    | (some) "?choice \<noteq> ''c''" "?choice \<noteq> ''a''" "str_in '','' ?choice"
    | (one) "?choice \<noteq> ''c''" "?choice \<noteq> ''a''" "\<not> str_in '','' ?choice"
    by blast
  then show ?thesis
  proof cases
    case cancel
    with assms inp ne show ?thesis by (simp add: resume_failed_downloads_def)
  next
    case all
    with assms inp ne
    have "retry_groups e (group_by_desc ?reg []) (s\<lparr> FAILED_DOWNLOADS := [] \<rparr>) = (err, bs, s')"
      by (simp add: resume_failed_downloads_def Let_def)
    from retry_groups_limit [OF this] show ?thesis by simp
  next
    case some
    show ?thesis
    proof (cases "parse_idxs e ?choice")
      case (Inl x)
      with assms inp ne some show ?thesis by (simp add: resume_failed_downloads_def Let_def)
    next
      case (Inr idxs)
      let ?pop = "pop_each (rev (sort idxs)) [] ?reg"
      from assms inp ne some Inr
      have "retry_each e (rev (fst ?pop)) (s\<lparr> FAILED_DOWNLOADS := snd ?pop \<rparr>) = (err, bs, s')"
        by (simp add: resume_failed_downloads_def Let_def split: prod.splits)
      from retry_each_limit [OF this] show ?thesis by simp
    qed
  next
    case one
    show ?thesis
    proof (cases "str_isdigit ?choice")
      case False
      with assms inp ne one show ?thesis by (simp add: resume_failed_downloads_def Let_def)
    next
      case True
      show ?thesis
      proof (cases "py_int e ?choice")
        case (Inl x)
        with assms inp ne one True show ?thesis by (simp add: resume_failed_downloads_def Let_def)
      next
        case (Inr n)
        show ?thesis
        proof (cases "0 \<le> n - 1 \<and> n - 1 < int (length ?reg)")
          case False
          with assms inp ne one True Inr show ?thesis
            by (auto simp: resume_failed_downloads_def Let_def)
        next
          case in_range: True
          let ?r = "?reg ! nat (n - 1)"
          let ?s1 = "s\<lparr> FAILED_DOWNLOADS := pop_at (nat (n - 1)) ?reg \<rparr>"
          from assms inp ne one True Inr in_range
          have res: "(case retry_downloads e [f_url ?r] (f_desc ?r) ?s1 of
                   Inl (err, s2) \<Rightarrow> (Some err, [], s2)
                 | Inr (b, s2) \<Rightarrow> (None, [b], s2)) = (err, bs, s')"
            by (simp add: resume_failed_downloads_def Let_def)
          from retry_downloads_limit [of e "[f_url ?r]" "f_desc ?r" ?s1] res
          show ?thesis by (auto split: sum.splits prod.splits)
        qed
      qed
    qed
  qed
qed

lemma reachable_limit: "reachable e s \<Longrightarrow> 1 \<le> MAX_WORKERS s"
proof (induction rule: reachable.induct)
  case start
  then show ?case by (simp add: initial_state_def)
next
  case (settings s inp err s')
  from settings_keeps_limit [OF settings.IH, of e inp] settings.hyps(2) show ?case by simp
next
  case (resume s inp err bs s')
  with resume_limit [of e inp s err bs s'] show ?case by simp
next
  case (video_with_audio s lines err bs s')
  then show ?case by (simp add: download_video_with_audio_def download_mode_limit)
next
  case (audio_single s lines err bs s')
  then show ?case by (simp add: download_audio_single_def download_mode_limit)
next
  case (video_only_single s lines err bs s')
  then show ?case by (simp add: download_video_only_single_def download_mode_limit)
next
  case (video_with_audio_playlist s lines err evs s')
  then show ?case by (simp add: download_video_with_audio_playlist_def playlist_mode_limit)
next
  case (audio_playlist s lines err evs s')
  then show ?case by (simp add: download_audio_playlist_def playlist_mode_limit)
next
  case (video_only_playlist s lines err evs s')
  then show ?case by (simp add: download_video_only_playlist_def playlist_mode_limit)
qed

lemma reachable_run_download:
  assumes "reachable e s"
  shows "\<exists>out s'. run_download e opts urls desc s = Inr (out, s')"
proof -
  from assms have "length urls \<le> 1 \<or> 1 \<le> MAX_WORKERS s" by (simp add: reachable_limit)
  from run_download_ok [OF this, of e opts desc] show ?thesis by blast
qed


end
